theory Spec2Isabelle
  imports Complex_Main "HOL-Library.AList"
begin

section \<open>Python values used by the catalogue pipeline\<close>

text \<open>
  A Python \<open>str\<close> is modelled as an Isabelle \<open>string\<close> holding its UTF-8 bytes.
  Substring search on valid UTF-8 finds exactly the occurrences that a search on code
  points finds, so \<open>replace\<close> and \<open>split\<close> below agree with \<open>str.replace\<close> and
  \<open>str.split\<close>. The en dash U+2013 that the provider client writes in its source is the
  three bytes E2 80 93.
\<close>

definition en_dash :: string where
  "en_dash = [CHR 0xE2, CHR 0x80, CHR 0x93]"

text \<open>
  A Python \<open>dict\<close> with string keys keeps its keys in insertion order and holds each key
  once: an association list. \<open>d.get(k)\<close> is \<open>map_of d k\<close>, \<open>d[k] = v\<close> is
  \<open>AList.update k v d\<close>.
\<close>

type_synonym 'v dict = "(string \<times> 'v) list"

definition get_default :: "'v dict \<Rightarrow> string \<Rightarrow> 'v \<Rightarrow> 'v" where
  \<comment> \<open>\<open>d.get(k, dflt)\<close>\<close>
  "get_default d k dflt = (case map_of d k of None \<Rightarrow> dflt | Some v \<Rightarrow> v)"

definition truthy :: "string option \<Rightarrow> bool" where
  \<comment> \<open>the truth value of \<open>d.get(k)\<close> for a string-valued entry: present and not empty\<close>
  "truthy v = (case v of None \<Rightarrow> False | Some s \<Rightarrow> s \<noteq> [])"

text \<open>
  \<open>s.replace(old, new)\<close>: every non-overlapping occurrence of \<open>old\<close>, from the left. For
  an empty \<open>old\<close> Python inserts \<open>new\<close> before every character and at the end.
\<close>

function replace :: "string \<Rightarrow> string \<Rightarrow> string \<Rightarrow> string" where
  "replace old new [] = (if old = [] then new else [])"
| "replace old new (c # cs) =
     (if old = [] then new @ c # replace old new cs
      else if take (length old) (c # cs) = old
           then new @ replace old new (drop (length old) (c # cs))
           else c # replace old new cs)"
  by pat_completeness auto
termination
  by (relation "measure (\<lambda>(old, new, s). length s)") auto

text \<open>
  \<open>s.split(sep)\<close> for a non-empty separator: the pieces between the non-overlapping
  occurrences of \<open>sep\<close>, from the left; the result always has at least one piece. (Python
  raises \<open>ValueError\<close> for an empty separator; every call in the source passes a literal,
  non-empty one, and for an empty one this function returns the whole string as one piece.)
\<close>

function split_from :: "string \<Rightarrow> string \<Rightarrow> string \<Rightarrow> string list" where
  "split_from sep piece [] = [piece]"
| "split_from sep piece (c # cs) =
     (if sep \<noteq> [] \<and> take (length sep) (c # cs) = sep
      then piece # split_from sep [] (drop (length sep) (c # cs))
      else split_from sep (piece @ [c]) cs)"
  by pat_completeness auto
termination
  by (relation "measure (\<lambda>(sep, piece, s). length s)") auto

definition split :: "string \<Rightarrow> string \<Rightarrow> string list" where
  "split sep s = split_from sep [] s"

fun join :: "string \<Rightarrow> string list \<Rightarrow> string" where
  "join sep [] = []"
| "join sep [x] = x"
| "join sep (x # y # ys) = x @ sep @ join sep (y # ys)"

text \<open>
  \<open>s.strip()\<close> removes leading and trailing whitespace. The characters Python counts as
  whitespace, as UTF-8: U+0009 to U+000D, U+001C to U+0020, U+0085, U+00A0, U+1680,
  U+2000 to U+200A, U+2028, U+2029, U+202F, U+205F and U+3000.
\<close>

definition whitespace :: "string list" where
  "whitespace =
     [[CHR 0x09], [CHR 0x0A], [CHR 0x0B], [CHR 0x0C], [CHR 0x0D],
      [CHR 0x1C], [CHR 0x1D], [CHR 0x1E], [CHR 0x1F], [CHR 0x20],
      [CHR 0xC2, CHR 0x85], [CHR 0xC2, CHR 0xA0], [CHR 0xE1, CHR 0x9A, CHR 0x80],
      [CHR 0xE2, CHR 0x80, CHR 0x80], [CHR 0xE2, CHR 0x80, CHR 0x81],
      [CHR 0xE2, CHR 0x80, CHR 0x82], [CHR 0xE2, CHR 0x80, CHR 0x83],
      [CHR 0xE2, CHR 0x80, CHR 0x84], [CHR 0xE2, CHR 0x80, CHR 0x85],
      [CHR 0xE2, CHR 0x80, CHR 0x86], [CHR 0xE2, CHR 0x80, CHR 0x87],
      [CHR 0xE2, CHR 0x80, CHR 0x88], [CHR 0xE2, CHR 0x80, CHR 0x89],
      [CHR 0xE2, CHR 0x80, CHR 0x8A], [CHR 0xE2, CHR 0x80, CHR 0xA8],
      [CHR 0xE2, CHR 0x80, CHR 0xA9], [CHR 0xE2, CHR 0x80, CHR 0xAF],
      [CHR 0xE2, CHR 0x81, CHR 0x9F], [CHR 0xE3, CHR 0x80, CHR 0x80]]"

definition leading_ws :: "string \<Rightarrow> nat" where
  \<comment> \<open>the number of bytes of the whitespace character \<open>s\<close> starts with, 0 when it starts with none\<close>
  "leading_ws s =
     (case find (\<lambda>w. take (length w) s = w) whitespace of
        None \<Rightarrow> 0 | Some w \<Rightarrow> length w)"

definition trailing_ws :: "string \<Rightarrow> nat" where
  \<comment> \<open>the same for the whitespace character \<open>s\<close> ends with\<close>
  "trailing_ws s =
     (case find (\<lambda>w. length w \<le> length s \<and> drop (length s - length w) s = w) whitespace of
        None \<Rightarrow> 0 | Some w \<Rightarrow> length w)"

function lstrip :: "string \<Rightarrow> string" where
  "lstrip s = (if s = [] \<or> leading_ws s = 0 then s else lstrip (drop (leading_ws s) s))"
  by pat_completeness auto
termination
  by (relation "measure length") auto

function rstrip :: "string \<Rightarrow> string" where
  "rstrip s = (if s = [] \<or> trailing_ws s = 0 then s else rstrip (take (length s - trailing_ws s) s))"
  by pat_completeness auto
termination
  by (relation "measure length") auto

definition strip :: "string \<Rightarrow> string" where
  "strip s = rstrip (lstrip s)"

section \<open>Metadata provider client (\<open>api_handlers/omdb_handler.py\<close>)\<close>

text \<open>
  What the body of the \<open>try\<close> block of \<open>search_movie\<close> does for a title: the request,
  \<open>raise_for_status\<close> or the decoding raises (a \<open>RequestException\<close>: connection error,
  timeout, HTTP error status; or any other exception), or \<open>response.json()\<close> returns the
  provider's object. The provider sends a flat object whose fields are JSON strings.
\<close>

datatype outcome =
    Raises_RequestException
  | Raises_Exception
  | Returns_json "string dict"

text \<open>
  The same three statements, from what the network does. \<open>requests.get\<close> raises when no
  connection is made or the timeout of 10 seconds passes; otherwise it returns the reply it
  ends on after following redirects, with a status code and a body.
  \<open>raise_for_status\<close> raises \<open>HTTPError\<close> for a status from 400 to 599 and for no other:
  a reply with a status below 400 that is not 2xx passes it. \<open>response.json()\<close> raises
  when the body is not JSON, and a JSON value that is not an object makes \<open>data.get\<close>
  raise.
\<close>

datatype reply_body = Not_json | Not_an_object | Object "string dict"

datatype http_result = No_connection | Timed_out | Replied nat reply_body

definition attempt :: "http_result \<Rightarrow> outcome" where
  "attempt r =
     (case r of
        No_connection \<Rightarrow> Raises_RequestException
      | Timed_out \<Rightarrow> Raises_RequestException
      | Replied status_code b \<Rightarrow>
          if 400 \<le> status_code \<and> status_code < 600 then Raises_RequestException
          else (case b of
                  Not_json \<Rightarrow> Raises_RequestException
                | Not_an_object \<Rightarrow> Raises_Exception
                | Object data \<Rightarrow> Returns_json data))"

definition search_movie :: "(string \<Rightarrow> outcome) \<Rightarrow> string \<Rightarrow> string dict option" where
  \<comment> \<open>both handlers show a warning in the sidebar and fall through to \<open>return None\<close>\<close>
  "search_movie request movie_title =
     (case request movie_title of
        Raises_RequestException \<Rightarrow> None
      | Raises_Exception \<Rightarrow> None
      | Returns_json data \<Rightarrow>
          if map_of data ''Response'' = Some ''True'' then Some data else None)"

text \<open>
  The movie dictionary that \<open>get_movie_data\<close> builds. A found record has every key; the
  placeholder has every key but \<open>omdb\<close>. \<open>rating\<close> is \<open>None\<close> when the provider sent no
  \<open>imdbRating\<close>.
\<close>

record movie =
  omdb :: "string dict option"
  title :: string
  genres :: "string list"
  year :: string
  overview :: string
  rating :: "string option"
  votes :: string
  director :: string
  actors :: string
  runtime :: string
  box_office :: string
  poster :: string
  metascore :: string
  imdb_id :: string
  omdb_link :: string
  source :: string

definition found_data :: "string dict \<Rightarrow> string \<Rightarrow> movie" where
  \<comment> \<open>the assignments under \<open>if omdb_data:\<close>\<close>
  "found_data omdb_data movie_title =
     \<lparr> omdb = Some omdb_data,
       title = get_default omdb_data ''Title'' movie_title,
       genres = (if truthy (map_of omdb_data ''Genre'')
                 then split '', '' (get_default omdb_data ''Genre'' '''') else []),
       year = hd (split en_dash (replace en_dash '''' (get_default omdb_data ''Year'' ''Unknown''))),
       overview = get_default omdb_data ''Plot'' '''',
       rating = map_of omdb_data ''imdbRating'',
       votes = replace '','' '''' (get_default omdb_data ''imdbVotes'' ''0''),
       director = get_default omdb_data ''Director'' ''Unknown'',
       actors = get_default omdb_data ''Actors'' ''Unknown'',
       runtime = get_default omdb_data ''Runtime'' ''Unknown'',
       box_office = get_default omdb_data ''BoxOffice'' ''Unknown'',
       poster = get_default omdb_data ''Poster'' '''',
       metascore = get_default omdb_data ''Metascore'' ''N/A'',
       imdb_id = get_default omdb_data ''imdbID'' '''',
       omdb_link = (if truthy (map_of omdb_data ''imdbID'')
                    then ''https://www.imdb.com/title/'' @ get_default omdb_data ''imdbID'' ''''
                    else ''''),
       source = ''OMDb'' \<rparr>"

definition minimal_data :: "string \<Rightarrow> movie" where
  \<comment> \<open>the dictionary literal under \<open>if not movie_data:\<close>\<close>
  "minimal_data movie_title =
     \<lparr> omdb = None,
       title = movie_title,
       genres = [''Unknown''],
       year = ''Unknown'',
       overview = ''No information available'',
       rating = None,
       votes = ''0'',
       director = ''Unknown'',
       actors = ''Unknown'',
       runtime = ''Unknown'',
       box_office = ''Unknown'',
       poster = '''',
       metascore = ''N/A'',
       imdb_id = '''',
       omdb_link = '''',
       source = ''Not Found'' \<rparr>"

definition get_movie_data :: "(string \<Rightarrow> outcome) \<Rightarrow> string \<Rightarrow> movie" where
  \<comment> \<open>\<open>if omdb_data:\<close> holds for an object that is neither \<open>None\<close> nor empty\<close>
  "get_movie_data request movie_title =
     (case search_movie request movie_title of
        None \<Rightarrow> minimal_data movie_title
      | Some omdb_data \<Rightarrow>
          if omdb_data = [] then minimal_data movie_title
          else found_data omdb_data movie_title)"

section \<open>Catalogue store (\<open>database/movie_database.py\<close>)\<close>

text \<open>
  A Python \<open>float\<close> is a binary64 number: finite, an infinity or a NaN. A finite value is
  kept as the rational it denotes (the two zeros are one value). \<open>float(s)\<close> is a parameter
  \<open>to_float\<close> of every function that calls it: \<open>None\<close> stands for the \<open>ValueError\<close> it
  raises on a string that is not a number.
\<close>

datatype pyfloat = Finite rat | PosInf | NegInf | NaN

datatype error = KeyError string | ValueError | ZeroDivisionError | OverflowError

text \<open>
  The tables \<open>movies\<close> and \<open>watchlist_items\<close> as \<open>init_database\<close> creates them, without
  their timestamp columns (\<open>date_added\<close>, \<open>added_date\<close>: the clock is outside the model).
  Both have an \<open>INTEGER PRIMARY KEY AUTOINCREMENT\<close>: SQLite keeps, per table, the largest
  row id it has handed out (\<open>sqlite_sequence\<close>) and gives a new row one more than the
  larger of that and the largest id in the table. Foreign keys are declared but SQLite
  does not enforce them unless asked to, and the source never asks.
\<close>

record movie_row =
  row_id :: nat
  row_title :: string
  row_year :: string
  row_genres :: string
  row_rating :: pyfloat
  row_director :: string
  row_actors :: string
  row_runtime :: string
  row_overview :: string
  row_poster_url :: string
  row_imdb_id :: string

record item_row =
  item_id :: nat
  item_watchlist_id :: int
  item_movie_id :: int

record movie_database =
  movies :: "movie_row list"
  movies_seq :: nat
  watchlist_items :: "item_row list"
  watchlist_items_seq :: nat

definition next_rowid :: "nat \<Rightarrow> nat list \<Rightarrow> nat" where
  "next_rowid seq ids = Suc (fold max ids seq)"

definition rating_param :: "(string \<Rightarrow> pyfloat option) \<Rightarrow> movie \<Rightarrow> pyfloat option" where
  \<comment> \<open>\<open>float(rating) if rating and rating != 'N/A' else 0\<close>; the column has REAL affinity\<close>
  "rating_param to_float movie_data =
     (case rating movie_data of
        None \<Rightarrow> Some (Finite 0)
      | Some r \<Rightarrow> if r \<noteq> [] \<and> r \<noteq> ''N/A'' then to_float r else Some (Finite 0))"

definition add_movie ::
  "(string \<Rightarrow> pyfloat option) \<Rightarrow> movie_database \<Rightarrow> movie \<Rightarrow> movie_database \<times> nat option" where
  \<comment> \<open>\<open>INSERT OR REPLACE\<close> deletes the rows that hold the new row's \<open>(title, year)\<close> and
      inserts the new row. A \<open>ValueError\<close> of \<open>float\<close> is raised before the statement runs,
      caught, reported, and \<open>None\<close> is returned.\<close>
  "add_movie to_float db movie_data =
     (case rating_param to_float movie_data of
        None \<Rightarrow> (db, None)
      | Some r \<Rightarrow>
          let movie_id = next_rowid (movies_seq db) (map row_id (movies db));
              new_row = \<lparr> row_id = movie_id,
                          row_title = title movie_data,
                          row_year = year movie_data,
                          row_genres = join '', '' (genres movie_data),
                          row_rating = r,
                          row_director = director movie_data,
                          row_actors = actors movie_data,
                          row_runtime = runtime movie_data,
                          row_overview = overview movie_data,
                          row_poster_url = poster movie_data,
                          row_imdb_id = imdb_id movie_data \<rparr>;
              kept = filter (\<lambda>x. \<not> (row_title x = title movie_data \<and> row_year x = year movie_data))
                       (movies db)
          in (db\<lparr>movies := kept @ [new_row], movies_seq := movie_id\<rparr>, Some movie_id))"

definition membership_count :: "movie_database \<Rightarrow> int \<Rightarrow> int \<Rightarrow> nat" where
  \<comment> \<open>how many rows of \<open>watchlist_items\<close> relate this watchlist to this movie\<close>
  "membership_count db watchlist_id movie_id =
     length (filter (\<lambda>x. item_watchlist_id x = watchlist_id \<and> item_movie_id x = movie_id)
               (watchlist_items db))"

definition add_to_watchlist :: "movie_database \<Rightarrow> int \<Rightarrow> int \<Rightarrow> movie_database \<times> bool" where
  \<comment> \<open>a plain \<open>INSERT\<close>: \<open>UNIQUE(watchlist_id, movie_id)\<close> makes it raise \<open>IntegrityError\<close>,
      which is caught, reported as a warning, and answered with \<open>False\<close>\<close>
  "add_to_watchlist db watchlist_id movie_id =
     (if membership_count db watchlist_id movie_id \<noteq> 0 then (db, False)
      else
        let new_id = next_rowid (watchlist_items_seq db) (map item_id (watchlist_items db));
            new_row = \<lparr> item_id = new_id, item_watchlist_id = watchlist_id, item_movie_id = movie_id \<rparr>
        in (db\<lparr>watchlist_items := watchlist_items db @ [new_row], watchlist_items_seq := new_id\<rparr>, True))"

section \<open>Classification engine (\<open>classifier/movie_classifier.py\<close>)\<close>

definition default_genres :: "string list" where
  "default_genres =
     [''Action'', ''Adventure'', ''Animation'', ''Comedy'', ''Crime'',
      ''Documentary'', ''Drama'', ''Family'', ''Fantasy'', ''History'',
      ''Horror'', ''Music'', ''Mystery'', ''Romance'', ''Science Fiction'',
      ''Thriller'', ''War'', ''Western'', ''Unknown'']"

text \<open>
  What a run does to the world outside the classifier, in the order it happens: a call of
  the progress callback with its two arguments, a request to the provider for a title, the
  pause of 0.2 seconds.
\<close>

datatype event = Progress nat nat | Request string | Sleep

record classifier =
  database :: movie_database
  processed_movies :: "movie list"
  effects :: "event list"

definition append_to :: "movie list dict \<Rightarrow> string \<Rightarrow> movie \<Rightarrow> error + movie list dict" where
  \<comment> \<open>\<open>classified_movies[k].append(movie_data)\<close>\<close>
  "append_to classified_movies k movie_data =
     (case map_of classified_movies k of
        None \<Rightarrow> Inl (KeyError k)
      | Some xs \<Rightarrow> Inr (AList.update k (xs @ [movie_data]) classified_movies))"

fun file_genres :: "movie list dict \<Rightarrow> movie \<Rightarrow> string list \<Rightarrow> error + movie list dict" where
  \<comment> \<open>\<open>for genre in genres:\<close>\<close>
  "file_genres classified_movies movie_data [] = Inr classified_movies"
| "file_genres classified_movies movie_data (genre # rest) =
     (case append_to classified_movies
             (if map_of classified_movies genre \<noteq> None then genre else ''Unknown'') movie_data of
        Inl e \<Rightarrow> Inl e
      | Inr classified_movies' \<Rightarrow> file_genres classified_movies' movie_data rest)"

definition file_movie :: "movie list dict \<Rightarrow> movie \<Rightarrow> error + movie list dict" where
  "file_movie classified_movies movie_data =
     (if genres movie_data = [] \<or> genres movie_data = [''Unknown'']
      then append_to classified_movies ''Unknown'' movie_data
      else file_genres classified_movies movie_data (genres movie_data))"

text \<open>
  The loop of \<open>classify_movies\<close> from index \<open>i\<close> on (\<open>t\<close> is the loop's \<open>title\<close>). \<open>request i\<close> is what the provider does
  for the \<open>i\<close>-th request of the run, \<open>callback\<close> says whether a progress callback was passed.
\<close>

fun classify_loop ::
  "(nat \<Rightarrow> string \<Rightarrow> outcome) \<Rightarrow> (string \<Rightarrow> pyfloat option) \<Rightarrow> bool \<Rightarrow> nat \<Rightarrow> nat \<Rightarrow> string list \<Rightarrow>
   movie list dict \<Rightarrow> classifier \<Rightarrow> error + (movie list dict \<times> classifier)" where
  "classify_loop request to_float callback total_movies i [] classified_movies self =
     Inr (classified_movies, self)"
| "classify_loop request to_float callback total_movies i (t # rest) classified_movies self =
     (let self1 = (if callback
                   then self\<lparr>effects := effects self @ [Progress (i + 1) total_movies]\<rparr>
                   else self);
          movie_data = get_movie_data (request i) (strip t);
          self2 = self1\<lparr>effects := effects self1 @ [Request (strip t)],
                        processed_movies := processed_movies self1 @ [movie_data]\<rparr>;
          self3 = (if source movie_data \<noteq> ''Not Found''
                   then self2\<lparr>database := fst (add_movie to_float (database self2) movie_data)\<rparr>
                   else self2)
      in case file_movie classified_movies movie_data of
           Inl e \<Rightarrow> Inl e
         | Inr classified_movies' \<Rightarrow>
             classify_loop request to_float callback total_movies (i + 1) rest classified_movies'
               (self3\<lparr>effects := effects self3 @ [Sleep]\<rparr>))"

definition classify_movies ::
  "(nat \<Rightarrow> string \<Rightarrow> outcome) \<Rightarrow> (string \<Rightarrow> pyfloat option) \<Rightarrow> bool \<Rightarrow> string list \<Rightarrow> classifier \<Rightarrow>
   error + (movie list dict \<times> classifier)" where
  "classify_movies request to_float callback movie_titles self =
     classify_loop request to_float callback (length movie_titles) 0 movie_titles
       (map (\<lambda>genre. (genre, [])) default_genres)
       (self\<lparr>processed_movies := []\<rparr>)"

text \<open>
  Three notions the statements below use: the records a run looks up, in order (title \<open>j\<close>
  of the list is request number \<open>i + j\<close>), the bucket an entry of a genre list is
  appended to by the loop over \<open>genres\<close>, and the number of times a record is appended
  to a bucket.
\<close>

definition lookups :: "(nat \<Rightarrow> string \<Rightarrow> outcome) \<Rightarrow> nat \<Rightarrow> string list \<Rightarrow> movie list" where
  "lookups request i movie_titles =
     map (\<lambda>(j, t). get_movie_data (request j) (strip t)) (enumerate i movie_titles)"

definition bucket_of :: "string \<Rightarrow> string" where
  "bucket_of genre = (if genre \<in> set default_genres then genre else ''Unknown'')"

definition filings :: "string \<Rightarrow> movie \<Rightarrow> nat" where
  \<comment> \<open>how many times one pass of the loop body appends the record to the bucket \<open>g\<close>\<close>
  "filings g m =
     (if genres m = [] \<or> genres m = [''Unknown'']
      then (if g = ''Unknown'' then 1 else 0)
      else length (filter (\<lambda>x. bucket_of x = g) (genres m)))"

definition step_effects :: "bool \<Rightarrow> nat \<Rightarrow> nat \<times> string \<Rightarrow> event list" where
  \<comment> \<open>what the iteration for the pair \<open>(i, title)\<close> of \<open>enumerate\<close> does to the world\<close>
  "step_effects callback total_movies p =
     (if callback then [Progress (fst p + 1) total_movies] else []) @
     [Request (strip (snd p)), Sleep]"

text \<open>
  The specification's sentence on progress reports, as a property of the effects of a run:
  every call of the callback passes the number of lookups made before the call. The first
  argument counts the lookups made so far.
\<close>

fun reports_lookups_made :: "nat \<Rightarrow> event list \<Rightarrow> bool" where
  "reports_lookups_made k [] = True"
| "reports_lookups_made k (Progress current n # es) = (current = k \<and> reports_lookups_made k es)"
| "reports_lookups_made k (Request t # es) = reports_lookups_made (Suc k) es"
| "reports_lookups_made k (Sleep # es) = reports_lookups_made k es"

subsection \<open>Statistics\<close>

datatype pynum = PyInt int | PyFloat pyfloat

text \<open>
  Binary64 arithmetic. \<open>round64 q\<close> is the float nearest to the rational \<open>q\<close>, ties to the
  even significand: with \<open>e\<close> the exponent of the last place (the exponent of \<open>q\<close> less 52,
  and at least -1074, where the subnormal numbers lie), \<open>q\<close> is rounded to a multiple of
  \<open>2 ^ e\<close>; a result of \<open>2 ^ 1024\<close> or more is an infinity. \<open>floor_log2 a\<close> is the
  exponent of a positive \<open>a\<close>: the \<open>k\<close> with \<open>2 ^ k \<le> a < 2 ^ (k + 1)\<close>.
\<close>

fun bit_length :: "nat \<Rightarrow> nat" where
  \<comment> \<open>the number of binary digits of \<open>n\<close>\<close>
  "bit_length n = (if n = 0 then 0 else Suc (bit_length (n div 2)))"

declare bit_length.simps [simp del]

definition floor_log2 :: "rat \<Rightarrow> int" where
  "floor_log2 a =
     (if 1 \<le> a then int (bit_length (nat \<lfloor>a\<rfloor>)) - 1
      else - int (bit_length (nat (\<lceil>1 / a\<rceil> - 1))))"

definition round_half_even :: "rat \<Rightarrow> int" where
  "round_half_even x =
     (let n = \<lfloor>x\<rfloor>; r = x - of_int n
      in if r < 1 / 2 then n else if 1 / 2 < r then n + 1 else if even n then n else n + 1)"

definition round64 :: "rat \<Rightarrow> pyfloat" where
  "round64 q =
     (if q = 0 then Finite 0
      else
        let e = max (floor_log2 \<bar>q\<bar> - 52) (- 1074);
            m = round_half_even (\<bar>q\<bar> / 2 powi e);
            r = of_int m * 2 powi e
        in if 2 ^ 1024 \<le> r then (if 0 < q then PosInf else NegInf)
           else Finite (if 0 < q then r else - r))"

definition truediv :: "int \<Rightarrow> int \<Rightarrow> error + pyfloat" where
  \<comment> \<open>\<open>a / b\<close> for two \<open>int\<close>s: the correctly rounded quotient; Python raises when \<open>b\<close> is 0
      and when the quotient is too large for a float\<close>
  "truediv a b =
     (if b = 0 then Inl ZeroDivisionError
      else (case round64 (of_int a / of_int b) of
              Finite x \<Rightarrow> Inr (Finite x)
            | PosInf \<Rightarrow> Inl OverflowError
            | NegInf \<Rightarrow> Inl OverflowError
            | NaN \<Rightarrow> Inr NaN))"

fun fmul :: "pyfloat \<Rightarrow> pyfloat \<Rightarrow> pyfloat" where
  \<comment> \<open>\<open>x * y\<close> for two floats: the rounded product, an infinity on overflow\<close>
  "fmul (Finite x) (Finite y) = round64 (x * y)"
| "fmul (Finite x) PosInf = (if x = 0 then NaN else if 0 < x then PosInf else NegInf)"
| "fmul (Finite x) NegInf = (if x = 0 then NaN else if 0 < x then NegInf else PosInf)"
| "fmul PosInf (Finite y) = (if y = 0 then NaN else if 0 < y then PosInf else NegInf)"
| "fmul NegInf (Finite y) = (if y = 0 then NaN else if 0 < y then NegInf else PosInf)"
| "fmul PosInf PosInf = PosInf"
| "fmul PosInf NegInf = NegInf"
| "fmul NegInf PosInf = NegInf"
| "fmul NegInf NegInf = PosInf"
| "fmul NaN y = NaN"
| "fmul x NaN = NaN"

fun fge :: "pyfloat \<Rightarrow> rat \<Rightarrow> bool" where
  \<comment> \<open>\<open>rating >= n\<close> for a float and an integer literal; every comparison with a NaN is false\<close>
  "fge (Finite x) n = (n \<le> x)"
| "fge PosInf n = True"
| "fge NegInf n = False"
| "fge NaN n = False"

definition rating_category :: "pyfloat \<Rightarrow> string" where
  "rating_category rating_val =
     (if fge rating_val 9 then ''Excellent (9-10)''
      else if fge rating_val 7 then ''Good (7-8.9)''
      else if fge rating_val 5 then ''Average (5-6.9)''
      else if fge rating_val 3 then ''Poor (3-4.9)''
      else ''Bad (0-2.9)'')"

definition rated :: "movie \<Rightarrow> string option" where
  \<comment> \<open>the rating of a movie that passes
      \<open>source != 'Not Found' and rating and rating != 'N/A'\<close>\<close>
  "rated m =
     (if source m \<noteq> ''Not Found''
      then (case rating m of
              None \<Rightarrow> None
            | Some r \<Rightarrow> if r \<noteq> [] \<and> r \<noteq> ''N/A'' then Some r else None)
      else None)"

fun count_genres :: "int dict \<Rightarrow> string list \<Rightarrow> int dict" where
  "count_genres genre_counts [] = genre_counts"
| "count_genres genre_counts (genre # rest) =
     count_genres
       (AList.update genre (case map_of genre_counts genre of Some n \<Rightarrow> n + 1 | None \<Rightarrow> 1)
          genre_counts)
       rest"

definition rate :: "(string \<Rightarrow> pyfloat option) \<Rightarrow> movie \<Rightarrow> pyfloat list \<times> int dict \<Rightarrow> pyfloat list \<times> int dict" where
  \<comment> \<open>the \<open>try\<close> block of the rating analysis; \<open>except: pass\<close> swallows the \<open>ValueError\<close> of
      \<open>float\<close> (nothing was changed yet) and a \<open>KeyError\<close> of the increment (the rating was
      appended already)\<close>
  "rate to_float m acc =
     (case rated m of
        None \<Rightarrow> acc
      | Some r \<Rightarrow>
          (case to_float r of
             None \<Rightarrow> acc
           | Some v \<Rightarrow>
               (case map_of (snd acc) (rating_category v) of
                  None \<Rightarrow> (fst acc @ [v], snd acc)
                | Some n \<Rightarrow> (fst acc @ [v], AList.update (rating_category v) (n + 1) (snd acc)))))"

definition rating_value :: "(string \<Rightarrow> pyfloat option) \<Rightarrow> movie \<Rightarrow> pyfloat option" where
  \<comment> \<open>the float that the rating analysis gets for a movie, if it gets one\<close>
  "rating_value to_float m = (case rated m of None \<Rightarrow> None | Some r \<Rightarrow> to_float r)"

fun stats_loop ::
  "(string \<Rightarrow> pyfloat option) \<Rightarrow> movie list \<Rightarrow> int dict \<times> pyfloat list \<times> int dict \<Rightarrow>
   int dict \<times> pyfloat list \<times> int dict" where
  \<comment> \<open>\<open>for movie in self.processed_movies:\<close> over \<open>(genre_counts, rating_data, rating_categories)\<close>\<close>
  "stats_loop to_float [] acc = acc"
| "stats_loop to_float (m # ms) (genre_counts, ratings) =
     stats_loop to_float ms (count_genres genre_counts (genres m), rate to_float m ratings)"

text \<open>
  The result of \<open>get_statistics\<close>, without \<open>average_rating\<close> and \<open>top_rated_movies\<close> (a
  rounded floating-point mean and a sort on floats). Building \<open>top_rated_movies\<close> calls
  \<open>float\<close> on every rated movie outside any \<open>try\<close>: its \<open>ValueError\<close> is kept. The
  success rate is \<open>(found_movies / total_movies) * 100\<close>: the quotient of the two counts is
  rounded to a float, and so is its product with 100.
\<close>

record statistics =
  total_movies :: int
  found_movies :: int
  not_found_movies :: int
  unknown_genres :: int
  genre_counts :: "int dict"
  success_rate :: pynum
  rating_data :: "pyfloat list"
  rating_categories :: "int dict"
  total_ratings :: int

definition get_statistics :: "(string \<Rightarrow> pyfloat option) \<Rightarrow> classifier \<Rightarrow> error + statistics option" where
  \<comment> \<open>\<open>None\<close> is the empty dictionary of \<open>if not self.processed_movies: return {}\<close>\<close>
  "get_statistics to_float self =
     (if processed_movies self = [] then Inr None
      else
        let n_total = int (length (processed_movies self));
            n_found = int (length (filter (\<lambda>m. source m \<noteq> ''Not Found'') (processed_movies self)));
            n_unknown = int (length (filter (\<lambda>m. genres m = [] \<or> genres m = [''Unknown''])
                                     (processed_movies self)));
            (counts, data, categories) =
               stats_loop to_float (processed_movies self)
                 ([], [],
                  [(''Excellent (9-10)'', 0), (''Good (7-8.9)'', 0), (''Average (5-6.9)'', 0),
                   (''Poor (3-4.9)'', 0), (''Bad (0-2.9)'', 0)])
        in if list_ex (\<lambda>m. case rated m of None \<Rightarrow> False | Some r \<Rightarrow> to_float r = None)
                (processed_movies self)
           then Inl ValueError
           else (case (if n_total > 0
                       then (case truediv n_found n_total of
                               Inl e \<Rightarrow> Inl e
                             | Inr q \<Rightarrow> Inr (PyFloat (fmul q (Finite 100))))
                       else Inr (PyInt 0)) of
                   Inl e \<Rightarrow> Inl e
                 | Inr rate_value \<Rightarrow>
                     Inr (Some \<lparr> total_movies = n_total,
                                 found_movies = n_found,
                                 not_found_movies = n_total - n_found,
                                 unknown_genres = n_unknown,
                                 genre_counts = counts,
                                 success_rate = rate_value,
                                 rating_data = data,
                                 rating_categories = categories,
                                 total_ratings = int (length data) \<rparr>)))"

section \<open>Sample inputs\<close>

text \<open>Provider behaviours and classifier states that the statements below are run on.\<close>

definition no_match :: "string \<Rightarrow> outcome" where
  \<comment> \<open>the provider answers that it knows no such movie\<close>
  "no_match t = Returns_json [(''Response'', ''False''), (''Error'', ''Movie not found!'')]"

definition year_reply :: "string \<Rightarrow> string \<Rightarrow> outcome" where
  \<comment> \<open>the provider knows the title and sends the year \<open>y\<close>\<close>
  "year_reply y t = Returns_json [(''Response'', ''True''), (''Title'', t), (''Year'', y)]"

definition no_year_reply :: "string \<Rightarrow> outcome" where
  \<comment> \<open>the provider knows the title and sends no year\<close>
  "no_year_reply t = Returns_json [(''Response'', ''True''), (''Title'', t)]"

definition empty_store :: movie_database where
  "empty_store = \<lparr> movies = [], movies_seq = 0, watchlist_items = [], watchlist_items_seq = 0 \<rparr>"

definition digits_to_float :: "string \<Rightarrow> pyfloat option" where
  \<comment> \<open>\<open>float\<close> on the rating strings of the samples; it raises on every other string\<close>
  "digits_to_float s =
     (if s = ''9.0'' then Some (Finite 9)
      else if s = ''8.7'' then Some (Finite (87 / 10))
      else if s = ''6.99'' then Some (Finite (699 / 100))
      else if s = ''0.0'' then Some (Finite 0)
      else None)"

definition matrix_first :: movie where
  "matrix_first =
     \<lparr> omdb = None, title = ''The Matrix'', genres = [''Action''], year = ''1999'',
       overview = ''first'', rating = Some ''8.7'', votes = ''10'',
       director = ''A'', actors = ''B'', runtime = ''136 min'',
       box_office = ''Unknown'', poster = '''', metascore = ''N/A'', imdb_id = ''tt0133093'',
       omdb_link = '''', source = ''OMDb'' \<rparr>"

definition matrix_second :: movie where
  \<comment> \<open>the same title and year with other metadata\<close>
  "matrix_second =
     \<lparr> omdb = None, title = ''The Matrix'', genres = [''Action'', ''Sci-Fi''], year = ''1999'',
       overview = ''second'', rating = Some ''9.0'', votes = ''20'',
       director = ''C'', actors = ''D'', runtime = ''140 min'',
       box_office = ''Unknown'', poster = ''p'', metascore = ''73'', imdb_id = ''tt9999999'',
       omdb_link = '''', source = ''OMDb'' \<rparr>"

definition matrix_reply :: "string dict" where
  "matrix_reply =
     [(''Response'', ''True''), (''Title'', ''The Matrix''), (''Year'', ''1999''),
      (''Genre'', ''Action, Sci-Fi''), (''imdbRating'', ''8.7'')]"

definition noir_reply :: "string dict" where
  \<comment> \<open>a reply whose two genres are both outside \<open>default_genres\<close>\<close>
  "noir_reply =
     [(''Response'', ''True''), (''Title'', ''Blade Runner''), (''Year'', ''1982''),
      (''Genre'', ''Sci-Fi, Film-Noir''), (''imdbRating'', ''9.0'')]"

definition sample_provider :: "nat \<Rightarrow> string \<Rightarrow> outcome" where
  "sample_provider i t =
     (if t = ''The Matrix'' then Returns_json matrix_reply
      else if t = ''Blade Runner'' then Returns_json noir_reply
      else no_match t)"

definition offline :: "nat \<Rightarrow> string \<Rightarrow> outcome" where
  \<comment> \<open>every request fails\<close>
  "offline i t = Raises_RequestException"

definition fresh :: classifier where
  "fresh = \<lparr> database = empty_store, processed_movies = [], effects = [] \<rparr>"

definition rated_sample :: "string \<Rightarrow> movie" where
  \<comment> \<open>a found record whose rating is the string \<open>s\<close>\<close>
  "rated_sample s = matrix_first\<lparr>rating := Some s\<rparr>"

definition rated_batch :: classifier where
  \<comment> \<open>a classifier whose last batch found three movies, rated 9.0, 6.99 and 0.0\<close>
  "rated_batch =
     fresh\<lparr>processed_movies := [rated_sample ''9.0'', rated_sample ''6.99'', rated_sample ''0.0'']\<rparr>"



definition garbled_reply :: "string dict" where
  \<comment> \<open>a reply for a known title whose rating is not a number\<close>
  "garbled_reply =
     [(''Response'', ''True''), (''Title'', ''Solaris''), (''Year'', ''1972''),
      (''Genre'', ''Drama''), (''imdbRating'', ''abc'')]"

definition garbled_provider :: "nat \<Rightarrow> string \<Rightarrow> outcome" where
  "garbled_provider i t = Returns_json garbled_reply"

definition multiple_choices :: "string \<Rightarrow> outcome" where
  \<comment> \<open>the provider answers with status 300 and a body that reports a match\<close>
  "multiple_choices t = attempt (Replied 300 (Object matrix_reply))"

definition server_error :: "string \<Rightarrow> http_result" where
  \<comment> \<open>the provider answers with status 503, whatever the body says\<close>
  "server_error t = Replied 503 (Object matrix_reply)"

section \<open>Properties of the provider client\<close>

lemma placeholder_when_search_fails:
  assumes "request t = Raises_RequestException \<or> request t = Raises_Exception \<or>
           (\<exists>data. request t = Returns_json data \<and> map_of data ''Response'' \<noteq> Some ''True'')"
  shows "get_movie_data request t = minimal_data t"
proof -
  have "search_movie request t = None"
    using assms by (auto simp: search_movie_def)
  then show ?thesis
    by (simp add: get_movie_data_def)
qed

lemma found_when_search_succeeds:
  assumes "request t = Returns_json data" and "map_of data ''Response'' = Some ''True''"
  shows "get_movie_data request t = found_data data t"
proof -
  have "data \<noteq> []" using assms(2) by auto
  then show ?thesis
    using assms by (simp add: get_movie_data_def search_movie_def)
qed

text \<open>
  C2, as the code has it. Whenever the lookup raises (no connection, a timeout, a status
  from 400 to 599, a body that is not a JSON object) or the provider reports no match,
  \<open>get_movie_data\<close> returns the record whose source is \<open>Not Found\<close> and whose other fields
  are the fixed placeholder values: genres exactly \<open>['Unknown']\<close>, year \<open>Unknown\<close>, no
  rating, empty external id and link; only the title is the caller's. A reply with any
  other status, 2xx or not, is judged by its body: when the body reports a match the record
  is a found one.
\<close>

theorem failed_lookup_gives_placeholder:
  "((http t = No_connection \<or> http t = Timed_out \<or>
     (\<exists>status_code b. http t = Replied status_code b \<and>
        (400 \<le> status_code \<and> status_code < 600 \<or> b = Not_json \<or> b = Not_an_object \<or>
         (\<exists>data. b = Object data \<and> map_of data ''Response'' \<noteq> Some ''True'')))) \<longrightarrow>
    get_movie_data (attempt \<circ> http) t =
      \<lparr> omdb = None, title = t, genres = [''Unknown''], year = ''Unknown'',
        overview = ''No information available'', rating = None, votes = ''0'',
        director = ''Unknown'', actors = ''Unknown'', runtime = ''Unknown'',
        box_office = ''Unknown'', poster = '''', metascore = ''N/A'', imdb_id = '''',
        omdb_link = '''', source = ''Not Found'' \<rparr>) \<and>
   (\<forall>status_code data.
      http t = Replied status_code (Object data) \<and> \<not> (400 \<le> status_code \<and> status_code < 600) \<and>
      map_of data ''Response'' = Some ''True'' \<longrightarrow>
      get_movie_data (attempt \<circ> http) t = found_data data t \<and>
      source (get_movie_data (attempt \<circ> http) t) = ''OMDb'')"
proof (intro conjI impI allI)
  assume "http t = No_connection \<or> http t = Timed_out \<or>
     (\<exists>status_code b. http t = Replied status_code b \<and>
        (400 \<le> status_code \<and> status_code < 600 \<or> b = Not_json \<or> b = Not_an_object \<or>
         (\<exists>data. b = Object data \<and> map_of data ''Response'' \<noteq> Some ''True'')))"
  then have "(attempt \<circ> http) t = Raises_RequestException \<or> (attempt \<circ> http) t = Raises_Exception \<or>
           (\<exists>data. (attempt \<circ> http) t = Returns_json data \<and> map_of data ''Response'' \<noteq> Some ''True'')"
    by (cases "http t") (auto simp: attempt_def split: if_splits reply_body.splits)
  from placeholder_when_search_fails [of "attempt \<circ> http" t, OF this]
  show "get_movie_data (attempt \<circ> http) t =
      \<lparr> omdb = None, title = t, genres = [''Unknown''], year = ''Unknown'',
        overview = ''No information available'', rating = None, votes = ''0'',
        director = ''Unknown'', actors = ''Unknown'', runtime = ''Unknown'',
        box_office = ''Unknown'', poster = '''', metascore = ''N/A'', imdb_id = '''',
        omdb_link = '''', source = ''Not Found'' \<rparr>"
    by (simp add: minimal_data_def)
next
  fix status_code data
  assume a: "http t = Replied status_code (Object data) \<and> \<not> (400 \<le> status_code \<and> status_code < 600) \<and>
      map_of data ''Response'' = Some ''True''"
  then have "(attempt \<circ> http) t = Returns_json data"
    by (auto simp: attempt_def)
  from found_when_search_succeeds [of "attempt \<circ> http" t data, OF this] a
  show "get_movie_data (attempt \<circ> http) t = found_data data t"
    by simp
  then show "source (get_movie_data (attempt \<circ> http) t) = ''OMDb''"
    by (simp add: found_data_def)
qed

theorem failed_lookup_gives_placeholder_witness:
  "server_error ''The Matrix'' = Replied 503 (Object matrix_reply) \<and>
   get_movie_data (attempt \<circ> server_error) ''The Matrix'' =
     \<lparr> omdb = None, title = ''The Matrix'', genres = [''Unknown''], year = ''Unknown'',
       overview = ''No information available'', rating = None, votes = ''0'',
       director = ''Unknown'', actors = ''Unknown'', runtime = ''Unknown'',
       box_office = ''Unknown'', poster = '''', metascore = ''N/A'', imdb_id = '''',
       omdb_link = '''', source = ''Not Found'' \<rparr>"
  using failed_lookup_gives_placeholder [of server_error "''The Matrix''"]
  by (simp add: server_error_def)

text \<open>
  C2 as the specification states it (every reply that is not 2xx is a failed lookup) fails
  for a reply with status 300 whose body reports a match: \<open>raise_for_status\<close> lets it
  pass, and the record is the found one.
\<close>

theorem other_status_with_match_is_found:
  "multiple_choices ''The Matrix'' = attempt (Replied 300 (Object matrix_reply)) \<and>
   get_movie_data multiple_choices ''The Matrix'' = found_data matrix_reply ''The Matrix'' \<and>
   source (get_movie_data multiple_choices ''The Matrix'') = ''OMDb''"
  by (simp add: multiple_choices_def attempt_def get_movie_data_def search_movie_def
        matrix_reply_def found_data_def)

text \<open>
  C3. Year normalisation should reduce a range to its first year. The source removes every
  en dash before it splits on the en dash, so the split finds nothing to split on: for the
  provider year 2010, en dash, 2012 the record's year is \<open>20102012\<close>, not \<open>2010\<close>. A plain
  year is kept and a missing year gives \<open>Unknown\<close>, as the claim says.
\<close>

theorem year_of_range_keeps_both_years:
  "year (get_movie_data (year_reply (''2010'' @ en_dash @ ''2012'')) ''Sherlock'') = ''20102012'' \<and>
   year (get_movie_data (year_reply ''2010'') ''Inception'') = ''2010'' \<and>
   year (get_movie_data no_year_reply ''Inception'') = ''Unknown''"
  by (simp add: get_movie_data_def search_movie_def found_data_def get_default_def
        year_reply_def no_year_reply_def en_dash_def split_def)

section \<open>Properties of the catalogue store\<close>

lemma add_movie_success:
  assumes "rating_param to_float m = Some r"
  shows "add_movie to_float db m =
           (db\<lparr>movies := filter (\<lambda>x. \<not> (row_title x = title m \<and> row_year x = year m)) (movies db) @
                     [\<lparr> row_id = next_rowid (movies_seq db) (map row_id (movies db)),
                        row_title = title m, row_year = year m,
                        row_genres = join '', '' (genres m), row_rating = r,
                        row_director = director m, row_actors = actors m,
                        row_runtime = runtime m, row_overview = overview m,
                        row_poster_url = poster m, row_imdb_id = imdb_id m \<rparr>],
                movies_seq := next_rowid (movies_seq db) (map row_id (movies db))\<rparr>,
            Some (next_rowid (movies_seq db) (map row_id (movies db))))"
  using assms by (simp add: add_movie_def Let_def)

text \<open>
  C7. Two calls of \<open>add_movie\<close> with the same title and year: after the second, the table
  holds exactly one row for that title and year, every column of it is the second
  record's, and the call returned that row's id. (The second record's rating has to
  convert to a float, or be absent or \<open>N/A\<close>: otherwise \<open>add_movie\<close> reports the error and
  writes nothing.)
\<close>

theorem upsert_replaces_row:
  assumes "title m2 = title m1" and "year m2 = year m1"
    and "rating_param to_float m2 = Some r"
    and "add_movie to_float db m1 = (db1, id1)"
    and "add_movie to_float db1 m2 = (db2, id2)"
  shows "\<exists>n. id2 = Some n \<and>
           filter (\<lambda>x. row_title x = title m1 \<and> row_year x = year m1) (movies db2) =
             [\<lparr> row_id = n, row_title = title m2, row_year = year m2,
                row_genres = join '', '' (genres m2), row_rating = r,
                row_director = director m2, row_actors = actors m2,
                row_runtime = runtime m2, row_overview = overview m2,
                row_poster_url = poster m2, row_imdb_id = imdb_id m2 \<rparr>]"
proof -
  have "filter (\<lambda>x. row_title x = title m2 \<and> row_year x = year m2)
          (filter (\<lambda>x. \<not> (row_title x = title m2 \<and> row_year x = year m2)) (movies db1)) = []"
    by (simp add: filter_empty_conv)
  then show ?thesis
    using assms(1,2,5) add_movie_success [OF assms(3), of db1]
    by auto
qed

theorem upsert_replaces_row_witness:
  "snd (add_movie digits_to_float (fst (add_movie digits_to_float empty_store matrix_first)) matrix_second) = Some 2 \<and>
   filter (\<lambda>x. row_title x = ''The Matrix'' \<and> row_year x = ''1999'')
      (movies (fst (add_movie digits_to_float (fst (add_movie digits_to_float empty_store matrix_first)) matrix_second))) =
     [\<lparr> row_id = 2, row_title = ''The Matrix'', row_year = ''1999'',
        row_genres = ''Action, Sci-Fi'', row_rating = Finite 9,
        row_director = ''C'', row_actors = ''D'',
        row_runtime = ''140 min'', row_overview = ''second'',
        row_poster_url = ''p'', row_imdb_id = ''tt9999999'' \<rparr>]"
proof -
  have r: "rating_param digits_to_float matrix_second = Some (Finite 9)"
    by (simp add: rating_param_def matrix_second_def digits_to_float_def)
  have k: "title matrix_second = title matrix_first" "year matrix_second = year matrix_first"
    by (simp_all add: matrix_first_def matrix_second_def)
  have n: "snd (add_movie digits_to_float (fst (add_movie digits_to_float empty_store matrix_first)) matrix_second) = Some 2"
    by (simp add: add_movie_def rating_param_def matrix_first_def matrix_second_def digits_to_float_def
          empty_store_def next_rowid_def Let_def)
  show ?thesis
    using upsert_replaces_row [OF k r surjective_pairing surjective_pairing, of empty_store] n
    by (auto simp: matrix_first_def matrix_second_def)
qed

lemma add_to_watchlist_count:
  "membership_count (fst (add_to_watchlist db w m)) w m =
     (if membership_count db w m = 0 then 1 else membership_count db w m)"
  by (simp add: add_to_watchlist_def membership_count_def Let_def)

text \<open>
  The table's \<open>UNIQUE(watchlist_id, movie_id)\<close> is an invariant of \<open>add_to_watchlist\<close>: a
  store in which every pair is related at most once stays so.
\<close>

lemma unique_membership_kept:
  assumes "\<forall>w m. membership_count db w m \<le> 1"
  shows "membership_count (fst (add_to_watchlist db w m)) w' m' \<le> 1"
  using assms [rule_format, of w' m'] assms [rule_format, of w m]
  by (auto simp: add_to_watchlist_def membership_count_def Let_def)

text \<open>
  C8. Two calls of \<open>add_to_watchlist\<close> with the same watchlist and movie, on a store that
  relates the pair at most once (as \<open>UNIQUE\<close> guarantees): the second call returns
  \<open>False\<close>, raises nothing, leaves the store as the first call left it, and the pair is
  related exactly once.
\<close>

theorem second_add_to_watchlist_is_refused:
  assumes "membership_count db w m \<le> 1"
    and "add_to_watchlist db w m = (db1, r1)"
    and "add_to_watchlist db1 w m = (db2, r2)"
  shows "r2 = False \<and> db2 = db1 \<and> membership_count db2 w m = 1"
proof -
  have c1: "membership_count db1 w m = 1"
    using assms(1,2) add_to_watchlist_count [of db w m] by (cases "membership_count db w m = 0") auto
  then show ?thesis
    using assms(3) by (auto simp: add_to_watchlist_def)
qed

theorem second_add_to_watchlist_is_refused_witness:
  "membership_count empty_store 3 7 \<le> 1 \<and>
   add_to_watchlist empty_store 3 7 =
     (\<lparr> movies = [], movies_seq = 0,
        watchlist_items = [\<lparr> item_id = 1, item_watchlist_id = 3, item_movie_id = 7 \<rparr>],
        watchlist_items_seq = 1 \<rparr>, True) \<and>
   add_to_watchlist (fst (add_to_watchlist empty_store 3 7)) 3 7 = (fst (add_to_watchlist empty_store 3 7), False) \<and>
   membership_count (fst (add_to_watchlist (fst (add_to_watchlist empty_store 3 7)) 3 7)) 3 7 = 1"
proof -
  have h: "membership_count empty_store 3 7 \<le> 1"
    by (simp add: membership_count_def empty_store_def)
  have f: "add_to_watchlist empty_store 3 7 =
     (\<lparr> movies = [], movies_seq = 0,
        watchlist_items = [\<lparr> item_id = 1, item_watchlist_id = 3, item_movie_id = 7 \<rparr>],
        watchlist_items_seq = 1 \<rparr>, True)"
    by (simp add: add_to_watchlist_def membership_count_def empty_store_def next_rowid_def Let_def)
  show ?thesis
    using second_add_to_watchlist_is_refused [OF h surjective_pairing surjective_pairing] h f
    by (metis prod.collapse)
qed

section \<open>Properties of the classification engine\<close>

lemma unknown_is_default: "''Unknown'' \<in> set default_genres"
  by (simp add: default_genres_def)

lemma append_to_known:
  assumes "map_of cm k = Some xs"
  shows "append_to cm k m = Inr (AList.update k (xs @ [m]) cm)"
  using assms by (simp add: append_to_def)

text \<open>
  The loop over a genre list appends the record to the bucket of each entry; the keys of
  the dictionary never change.
\<close>

lemma file_genres_buckets:
  assumes "\<forall>g. (map_of cm g \<noteq> None) = (g \<in> set default_genres)"
  shows "\<exists>cm'. file_genres cm m gs = Inr cm' \<and>
           (\<forall>g. map_of cm' g =
                 map_option (\<lambda>xs. xs @ replicate (length (filter (\<lambda>x. bucket_of x = g) gs)) m)
                   (map_of cm g))"
  using assms
proof (induction gs arbitrary: cm)
  case Nil
  then show ?case by (simp add: option.map_ident)
next
  case (Cons x gs)
  let ?k = "bucket_of x"
  have key: "(if map_of cm x \<noteq> None then x else ''Unknown'') = ?k"
    using Cons.prems by (simp add: bucket_of_def)
  have "?k \<in> set default_genres"
    by (simp add: bucket_of_def unknown_is_default)
  then obtain xs where xs: "map_of cm ?k = Some xs"
    using Cons.prems by blast
  let ?cm1 = "AList.update ?k (xs @ [m]) cm"
  have step: "append_to cm ?k m = Inr ?cm1"
    using xs by (rule append_to_known)
  have m1: "map_of ?cm1 = (map_of cm)(?k \<mapsto> xs @ [m])"
    by (rule update_conv')
  have keys1: "\<forall>g. (map_of ?cm1 g \<noteq> None) = (g \<in> set default_genres)"
    using Cons.prems xs by (auto simp: m1)
  from Cons.IH [OF keys1] obtain cm' where
    run: "file_genres ?cm1 m gs = Inr cm'" and
    res: "\<forall>g. map_of cm' g =
            map_option (\<lambda>ys. ys @ replicate (length (filter (\<lambda>x. bucket_of x = g) gs)) m)
              (map_of ?cm1 g)"
    by blast
  have "file_genres cm m (x # gs) = Inr cm'"
    using key step run by simp
  moreover have "map_of cm' g =
      map_option (\<lambda>ys. ys @ replicate (length (filter (\<lambda>y. bucket_of y = g) (x # gs))) m)
        (map_of cm g)" for g
    using res xs by (cases "g = ?k") (auto simp: m1 replicate_append_same)
  ultimately show ?case by blast
qed


lemma file_movie_buckets:
  assumes "\<forall>g. (map_of cm g \<noteq> None) = (g \<in> set default_genres)"
  shows "\<exists>cm'. file_movie cm m = Inr cm' \<and>
           (\<forall>g. map_of cm' g = map_option (\<lambda>xs. xs @ replicate (filings g m) m) (map_of cm g))"
proof (cases "genres m = [] \<or> genres m = [''Unknown'']")
  case True
  obtain xs where xs: "map_of cm ''Unknown'' = Some xs"
    using assms unknown_is_default by blast
  let ?cm1 = "AList.update ''Unknown'' (xs @ [m]) cm"
  have "file_movie cm m = Inr ?cm1"
    using True xs by (simp add: file_movie_def append_to_known)
  moreover have "map_of ?cm1 g = map_option (\<lambda>ys. ys @ replicate (filings g m) m) (map_of cm g)" for g
    using True xs by (cases "g = ''Unknown''") (auto simp: update_conv' filings_def option.map_ident)
  ultimately show ?thesis by blast
next
  case False
  then show ?thesis
    using file_genres_buckets [OF assms, of m "genres m"]
    by (simp add: file_movie_def filings_def)
qed

lemma lookups_Nil: "lookups rq i [] = []"
  by (simp add: lookups_def)

lemma lookups_Cons: "lookups rq i (t # ts) = get_movie_data (rq i) (strip t) # lookups rq (Suc i) ts"
  by (simp add: lookups_def)

text \<open>
  The loop of \<open>classify_movies\<close> never raises, and its result in closed form: the store, the
  batch list, the effects and every bucket.
\<close>

lemma classify_loop_result:
  assumes "\<forall>g. (map_of cm g \<noteq> None) = (g \<in> set default_genres)"
  shows "\<exists>cm'. classify_loop rq tf cb n i ts cm st =
             Inr (cm', st\<lparr>database := foldl (\<lambda>db m. fst (add_movie tf db m)) (database st)
                                       (filter (\<lambda>m. source m \<noteq> ''Not Found'') (lookups rq i ts)),
                          processed_movies := processed_movies st @ lookups rq i ts,
                          effects := effects st @ concat (map (step_effects cb n) (enumerate i ts))\<rparr>) \<and>
           (\<forall>g. map_of cm' g =
                 map_option (\<lambda>xs. xs @ concat (map (\<lambda>m. replicate (filings g m) m) (lookups rq i ts)))
                   (map_of cm g))"
  using assms
proof (induction ts arbitrary: i cm st)
  case Nil
  then show ?case by (simp add: lookups_Nil option.map_ident)
next
  case (Cons t ts)
  let ?m = "get_movie_data (rq i) (strip t)"
  from file_movie_buckets [OF Cons.prems, of ?m] obtain cm1 where
    f: "file_movie cm ?m = Inr cm1" and
    b: "\<forall>g. map_of cm1 g = map_option (\<lambda>xs. xs @ replicate (filings g ?m) ?m) (map_of cm g)"
    by blast
  have keys1: "\<forall>g. (map_of cm1 g \<noteq> None) = (g \<in> set default_genres)"
    using Cons.prems b by simp
  let ?st1 = "if cb then st\<lparr>effects := effects st @ [Progress (i + 1) n]\<rparr> else st"
  let ?st2 = "?st1\<lparr>effects := effects ?st1 @ [Request (strip t)],
                     processed_movies := processed_movies ?st1 @ [?m]\<rparr>"
  let ?st3 = "if source ?m \<noteq> ''Not Found''
              then ?st2\<lparr>database := fst (add_movie tf (database ?st2) ?m)\<rparr> else ?st2"
  let ?st4 = "?st3\<lparr>effects := effects ?st3 @ [Sleep]\<rparr>"
  from Cons.IH [OF keys1, of "Suc i" ?st4] obtain cm' where
    r: "classify_loop rq tf cb n (Suc i) ts cm1 ?st4 =
          Inr (cm', ?st4\<lparr>database := foldl (\<lambda>db m. fst (add_movie tf db m)) (database ?st4)
                                       (filter (\<lambda>m. source m \<noteq> ''Not Found'') (lookups rq (Suc i) ts)),
                          processed_movies := processed_movies ?st4 @ lookups rq (Suc i) ts,
                          effects := effects ?st4 @ concat (map (step_effects cb n) (enumerate (Suc i) ts))\<rparr>)" and
    c: "\<forall>g. map_of cm' g =
              map_option (\<lambda>xs. xs @ concat (map (\<lambda>m. replicate (filings g m) m) (lookups rq (Suc i) ts)))
                (map_of cm1 g)"
    by blast
  have "classify_loop rq tf cb n i (t # ts) cm st =
          classify_loop rq tf cb n (Suc i) ts cm1 ?st4"
    using f by (simp add: Let_def)
  also note r
  finally have run: "classify_loop rq tf cb n i (t # ts) cm st =
      Inr (cm', st\<lparr>database := foldl (\<lambda>db m. fst (add_movie tf db m)) (database st)
                                       (filter (\<lambda>m. source m \<noteq> ''Not Found'') (lookups rq i (t # ts))),
                    processed_movies := processed_movies st @ lookups rq i (t # ts),
                    effects := effects st @ concat (map (step_effects cb n) (enumerate i (t # ts)))\<rparr>)"
    by (simp add: lookups_Cons step_effects_def)
  have "map_of cm' g =
          map_option (\<lambda>xs. xs @ concat (map (\<lambda>m. replicate (filings g m) m) (lookups rq i (t # ts))))
            (map_of cm g)" for g
    using b c by (cases "map_of cm g") (simp_all add: lookups_Cons)
  with run show ?case by blast
qed


lemma initial_buckets:
  "map_of (map (\<lambda>genre. (genre, [])) default_genres) g =
     (if g \<in> set default_genres then Some [] else None)"
  by (simp add: map_of_map_restrict restrict_map_def)

lemma classify_movies_result:
  "\<exists>cm. classify_movies rq tf cb ts st =
           Inr (cm, st\<lparr>database := foldl (\<lambda>db m. fst (add_movie tf db m)) (database st)
                                     (filter (\<lambda>m. source m \<noteq> ''Not Found'') (lookups rq 0 ts)),
                        processed_movies := lookups rq 0 ts,
                        effects := effects st @ concat (map (step_effects cb (length ts)) (enumerate 0 ts))\<rparr>) \<and>
         (\<forall>g. map_of cm g =
               (if g \<in> set default_genres
                then Some (concat (map (\<lambda>m. replicate (filings g m) m) (lookups rq 0 ts)))
                else None))"
proof -
  let ?cm0 = "map (\<lambda>genre. (genre, [])) default_genres"
  have keys: "\<forall>g. (map_of ?cm0 g \<noteq> None) = (g \<in> set default_genres)"
    by (simp add: initial_buckets)
  from classify_loop_result [OF keys, of rq tf cb "length ts" 0 ts "st\<lparr>processed_movies := []\<rparr>"]
  obtain cm where
    "classify_loop rq tf cb (length ts) 0 ts ?cm0 (st\<lparr>processed_movies := []\<rparr>) =
       Inr (cm, st\<lparr>database := foldl (\<lambda>db m. fst (add_movie tf db m)) (database st)
                                     (filter (\<lambda>m. source m \<noteq> ''Not Found'') (lookups rq 0 ts)),
                    processed_movies := lookups rq 0 ts,
                    effects := effects st @ concat (map (step_effects cb (length ts)) (enumerate 0 ts))\<rparr>)"
    and "\<forall>g. map_of cm g =
           map_option (\<lambda>xs. xs @ concat (map (\<lambda>m. replicate (filings g m) m) (lookups rq 0 ts)))
             (map_of ?cm0 g)"
    by auto
  then show ?thesis
    by (intro exI [of _ cm]) (simp add: classify_movies_def initial_buckets)
qed

lemma set_concat_replicate:
  "m \<in> set (concat (map (\<lambda>r. replicate (f r) r) rs)) \<longleftrightarrow> m \<in> set rs \<and> 0 < f m"
  by (induction rs) auto

lemma count_list_replicate:
  "count_list (replicate n x) m = (if x = m then n else 0)"
  by (induction n) auto

lemma count_concat_replicate:
  "count_list (concat (map (\<lambda>r. replicate (f r) r) rs)) m = f m * count_list rs m"
  by (induction rs) (auto simp: count_list_replicate)

lemma filings_named:
  assumes "g \<in> set (genres m)" and "g \<in> set default_genres"
  shows "0 < filings g m"
proof -
  have "bucket_of g = g" using assms(2) by (simp add: bucket_of_def)
  then have "filter (\<lambda>x. bucket_of x = g) (genres m) \<noteq> []"
    using assms(1) by (auto simp: filter_empty_conv)
  then show ?thesis
    using assms(1) by (auto simp: filings_def)
qed

lemma filings_unknown_default:
  assumes "genres m = [] \<or> genres m = [''Unknown'']"
  shows "filings ''Unknown'' m = 1"
  using assms by (simp add: filings_def)

lemma filings_unrecognised:
  assumes "g \<in> set (genres m)" and "g \<notin> set default_genres"
  shows "0 < filings ''Unknown'' m"
proof -
  have "bucket_of g = ''Unknown''" using assms(2) by (simp add: bucket_of_def)
  then have "filter (\<lambda>x. bucket_of x = ''Unknown'') (genres m) \<noteq> []"
    using assms(1) by (auto simp: filter_empty_conv)
  moreover have "genres m \<noteq> [''Unknown'']"
    using assms unknown_is_default by auto
  ultimately show ?thesis
    using assms(1) by (auto simp: filings_def)
qed

lemma filings_all_unrecognised:
  assumes "\<forall>g \<in> set (genres m). g \<notin> set default_genres" and "genres m \<noteq> []"
  shows "filings ''Unknown'' m = length (genres m)"
proof -
  have "filter (\<lambda>x. bucket_of x = ''Unknown'') (genres m) = genres m"
    using assms(1) by (auto simp: bucket_of_def intro: filter_True)
  moreover have "genres m \<noteq> [''Unknown'']"
    using assms(1) unknown_is_default by auto
  ultimately show ?thesis
    using assms(2) by (simp add: filings_def)
qed

lemma filings_positive:
  assumes "0 < filings g m"
  shows "g \<in> set (genres m) \<or>
         g = ''Unknown'' \<and> (genres m = [] \<or> (\<exists>x \<in> set (genres m). x \<notin> set default_genres))"
proof (cases "genres m = [] \<or> genres m = [''Unknown'']")
  case True
  then show ?thesis using assms by (auto simp: filings_def split: if_splits)
next
  case False
  then have "filter (\<lambda>x. bucket_of x = g) (genres m) \<noteq> []"
    using assms by (simp add: filings_def)
  then obtain x where "x \<in> set (genres m)" "bucket_of x = g"
    by (auto simp: filter_empty_conv)
  then show ?thesis
    by (auto simp: bucket_of_def split: if_splits)
qed

text \<open>
  C1. Every run of \<open>classify_movies\<close> returns; its batch list holds, title by title, the
  record that \<open>get_movie_data\<close> returns for the stripped title; and each of these records is
  in every bucket that its genre list names and \<open>default_genres\<close> holds; a record whose genre list is
  empty or exactly \<open>['Unknown']\<close> is in the \<open>Unknown\<close> bucket; and so is a record with a
  genre outside \<open>default_genres\<close>. The last conjunct adds that the buckets hold nothing
  else: their keys are \<open>default_genres\<close>, and a record is in a bucket only for one of
  these reasons.
\<close>

theorem records_are_filed_by_genre:
  "\<exists>cm self'. classify_movies request to_float callback titles self = Inr (cm, self') \<and>
     processed_movies self' =
       map (\<lambda>(i, t). get_movie_data (request i) (strip t)) (enumerate 0 titles) \<and>
     (\<forall>m \<in> set (processed_movies self').
        (\<forall>g \<in> set (genres m). g \<in> set default_genres \<longrightarrow> (\<exists>xs. map_of cm g = Some xs \<and> m \<in> set xs)) \<and>
        (genres m = [] \<or> genres m = [''Unknown''] \<longrightarrow>
           (\<exists>xs. map_of cm ''Unknown'' = Some xs \<and> m \<in> set xs)) \<and>
        ((\<exists>g \<in> set (genres m). g \<notin> set default_genres) \<longrightarrow>
           (\<exists>xs. map_of cm ''Unknown'' = Some xs \<and> m \<in> set xs))) \<and>
     (\<forall>g xs. map_of cm g = Some xs \<longrightarrow>
        g \<in> set default_genres \<and>
        (\<forall>m \<in> set xs. m \<in> set (processed_movies self') \<and>
           (g \<in> set (genres m) \<or>
            g = ''Unknown'' \<and> (genres m = [] \<or> (\<exists>x \<in> set (genres m). x \<notin> set default_genres)))))"
proof -
  let ?recs = "lookups request 0 titles"
  let ?bucket = "\<lambda>g. concat (map (\<lambda>m. replicate (filings g m) m) ?recs)"
  from classify_movies_result [of request to_float callback titles self]
  obtain cm self' where
    run: "classify_movies request to_float callback titles self = Inr (cm, self')" and
    recs: "processed_movies self' = ?recs" and
    buckets: "\<forall>g. map_of cm g = (if g \<in> set default_genres then Some (?bucket g) else None)"
    by auto
  have a: "\<exists>xs. map_of cm g = Some xs \<and> m \<in> set xs"
    if "m \<in> set ?recs" "g \<in> set (genres m)" "g \<in> set default_genres" for m g
    using that buckets filings_named [of g m] by (simp add: set_concat_replicate)
  have b: "\<exists>xs. map_of cm ''Unknown'' = Some xs \<and> m \<in> set xs"
    if "m \<in> set ?recs" "genres m = [] \<or> genres m = [''Unknown'']" for m
    using that buckets filings_unknown_default [of m] unknown_is_default
    by (simp add: set_concat_replicate)
  have c: "\<exists>xs. map_of cm ''Unknown'' = Some xs \<and> m \<in> set xs"
    if "m \<in> set ?recs" "\<exists>g \<in> set (genres m). g \<notin> set default_genres" for m
    using that buckets filings_unrecognised [of _ m] unknown_is_default
    by (auto simp: set_concat_replicate)
  have d: "g \<in> set default_genres \<and>
        (\<forall>m \<in> set xs. m \<in> set ?recs \<and>
           (g \<in> set (genres m) \<or>
            g = ''Unknown'' \<and> (genres m = [] \<or> (\<exists>x \<in> set (genres m). x \<notin> set default_genres))))"
    if "map_of cm g = Some xs" for g xs
  proof -
    have g: "g \<in> set default_genres" and xs: "xs = ?bucket g"
      using that buckets by (auto split: if_splits)
    show ?thesis
      using g xs filings_positive [of g] by (auto simp: set_concat_replicate)
  qed
  show ?thesis
    using run recs a b c d by (intro exI [of _ cm] exI [of _ self']) (simp add: lookups_def; blast)
qed


lemma strip_samples:
  "strip ''The Matrix'' = ''The Matrix''"
  "strip ''Blade Runner'' = ''Blade Runner''"
  "strip ''Zzznonexistentmovie123'' = ''Zzznonexistentmovie123''"
  "strip ''Up'' = ''Up''"
  by code_simp+

lemma sample_lookups:
  "get_movie_data (sample_provider i) ''The Matrix'' = found_data matrix_reply ''The Matrix''"
  "get_movie_data (sample_provider i) ''Blade Runner'' = found_data noir_reply ''Blade Runner''"
  "get_movie_data (sample_provider i) ''Zzznonexistentmovie123'' = minimal_data ''Zzznonexistentmovie123''"
  by (simp_all add: get_movie_data_def search_movie_def sample_provider_def matrix_reply_def
        noir_reply_def no_match_def)

lemma sample_genres:
  "genres (found_data matrix_reply ''The Matrix'') = [''Action'', ''Sci-Fi'']"
  "genres (found_data noir_reply ''Blade Runner'') = [''Sci-Fi'', ''Film-Noir'']"
  "genres (minimal_data t) = [''Unknown'']"
  by (simp_all add: found_data_def minimal_data_def matrix_reply_def noir_reply_def truthy_def
        get_default_def split_def)

theorem records_are_filed_by_genre_witness:
  "\<exists>cm self'.
     classify_movies sample_provider digits_to_float True
       [''The Matrix'', ''Zzznonexistentmovie123''] fresh = Inr (cm, self') \<and>
     processed_movies self' =
       [found_data matrix_reply ''The Matrix'', minimal_data ''Zzznonexistentmovie123''] \<and>
     (\<exists>xs. map_of cm ''Action'' = Some xs \<and> found_data matrix_reply ''The Matrix'' \<in> set xs) \<and>
     (\<exists>xs. map_of cm ''Unknown'' = Some xs \<and> found_data matrix_reply ''The Matrix'' \<in> set xs \<and>
           minimal_data ''Zzznonexistentmovie123'' \<in> set xs)"
proof -
  let ?titles = "[''The Matrix'', ''Zzznonexistentmovie123'']"
  let ?a = "found_data matrix_reply ''The Matrix''"
  let ?b = "minimal_data ''Zzznonexistentmovie123''"
  from records_are_filed_by_genre [of sample_provider digits_to_float True ?titles fresh]
  obtain cm self' where
    run: "classify_movies sample_provider digits_to_float True ?titles fresh = Inr (cm, self')" and
    filed: "\<forall>m \<in> set (processed_movies self').
        (\<forall>g \<in> set (genres m). g \<in> set default_genres \<longrightarrow> (\<exists>xs. map_of cm g = Some xs \<and> m \<in> set xs)) \<and>
        (genres m = [] \<or> genres m = [''Unknown''] \<longrightarrow>
           (\<exists>xs. map_of cm ''Unknown'' = Some xs \<and> m \<in> set xs)) \<and>
        ((\<exists>g \<in> set (genres m). g \<notin> set default_genres) \<longrightarrow>
           (\<exists>xs. map_of cm ''Unknown'' = Some xs \<and> m \<in> set xs))"
    by blast
  have recs: "processed_movies self' = [?a, ?b]"
    using run classify_movies_result [of sample_provider digits_to_float True ?titles fresh]
    by (auto simp: lookups_def strip_samples sample_lookups)
  have "''Action'' \<in> set default_genres" "''Sci-Fi'' \<notin> set default_genres"
    by (simp_all add: default_genres_def)
  then have "\<exists>xs. map_of cm ''Action'' = Some xs \<and> ?a \<in> set xs"
    and "\<exists>xs. map_of cm ''Unknown'' = Some xs \<and> ?a \<in> set xs"
    and "\<exists>xs. map_of cm ''Unknown'' = Some xs \<and> ?b \<in> set xs"
    using filed recs sample_genres by auto
  then show ?thesis
    using run recs by auto
qed


text \<open>
  C6, as the code has it. The callback, when one is passed, is called at the start of each
  iteration, before the title is looked up, with the title's position counted from 1 and
  the number of titles: the effects of a run are, for each title in order, the call, the
  request and the pause. So the first argument is one more than the number of lookups
  made before the call.
\<close>

theorem progress_precedes_each_lookup:
  "\<exists>cm self'. classify_movies request to_float callback titles self = Inr (cm, self') \<and>
     effects self' =
       effects self @
       concat (map (\<lambda>(i, t). (if callback then [Progress (i + 1) (length titles)] else []) @
                              [Request (strip t), Sleep])
                 (enumerate 0 titles))"
proof -
  have "step_effects callback (length titles) =
          (\<lambda>(i, t). (if callback then [Progress (i + 1) (length titles)] else []) @
                     [Request (strip t), Sleep])"
    by (auto simp: step_effects_def fun_eq_iff)
  then show ?thesis
    using classify_movies_result [of request to_float callback titles self] by auto
qed

theorem progress_precedes_each_lookup_witness:
  "\<exists>cm self'. classify_movies sample_provider digits_to_float True
       [''The Matrix'', ''Zzznonexistentmovie123''] fresh = Inr (cm, self') \<and>
     effects self' =
       [Progress 1 2, Request ''The Matrix'', Sleep,
        Progress 2 2, Request ''Zzznonexistentmovie123'', Sleep]"
  using progress_precedes_each_lookup [of sample_provider digits_to_float True
      "[''The Matrix'', ''Zzznonexistentmovie123'']" fresh]
  by (simp add: strip_samples fresh_def eval_nat_numeral)

text \<open>
  C6 as the specification states it (the callback is called after each lookup, with the
  number of lookups completed so far) fails on a batch of one title: the callback is called
  with 1 before any request was made.
\<close>

theorem progress_is_not_after_lookup:
  "effects (snd (projr (classify_movies offline digits_to_float True [''Up''] fresh))) =
     [Progress 1 1, Request ''Up'', Sleep] \<and>
   \<not> reports_lookups_made 0
       (effects (snd (projr (classify_movies offline digits_to_float True [''Up''] fresh))))"
proof -
  obtain cm where
    "classify_movies offline digits_to_float True [''Up''] fresh =
       Inr (cm, fresh\<lparr>database := foldl (\<lambda>db m. fst (add_movie digits_to_float db m)) (database fresh)
                                     (filter (\<lambda>m. source m \<noteq> ''Not Found'') (lookups offline 0 [''Up''])),
                    processed_movies := lookups offline 0 [''Up''],
                    effects := effects fresh @ concat (map (step_effects True (length [''Up''])) (enumerate 0 [''Up'']))\<rparr>)"
    using classify_movies_result [of offline digits_to_float True "[''Up'']" fresh] by blast
  then have "effects (snd (projr (classify_movies offline digits_to_float True [''Up''] fresh))) =
     [Progress 1 1, Request ''Up'', Sleep]"
    by (simp add: step_effects_def strip_samples fresh_def)
  then show ?thesis by simp
qed


lemma add_movie_rows:
  assumes "x \<in> set (movies (fst (add_movie tf db m)))"
  shows "x \<in> set (movies db) \<or>
         rating_param tf m \<noteq> None \<and> row_title x = title m \<and> row_year x = year m"
proof (cases "rating_param tf m")
  case None
  then show ?thesis using assms by (simp add: add_movie_def)
next
  case (Some r)
  then show ?thesis using assms add_movie_success [OF Some, of db] by auto
qed

lemma add_movie_keeps_key:
  assumes "\<exists>x \<in> set (movies db). row_title x = a \<and> row_year x = b"
  shows "\<exists>x \<in> set (movies (fst (add_movie tf db m))). row_title x = a \<and> row_year x = b"
proof (cases "rating_param tf m")
  case None
  then show ?thesis using assms by (simp add: add_movie_def)
next
  case (Some r)
  show ?thesis
  proof (cases "title m = a \<and> year m = b")
    case True
    then show ?thesis using add_movie_success [OF Some, of db] by simp
  next
    case False
    then show ?thesis using assms add_movie_success [OF Some, of db] by auto
  qed
qed

lemma add_movie_writes_key:
  assumes "rating_param tf m \<noteq> None"
  shows "\<exists>x \<in> set (movies (fst (add_movie tf db m))). row_title x = title m \<and> row_year x = year m"
proof -
  obtain r where r: "rating_param tf m = Some r" using assms by auto
  show ?thesis using add_movie_success [OF r, of db] by simp
qed

lemma foldl_add_movie_rows:
  assumes "x \<in> set (movies (foldl (\<lambda>db m. fst (add_movie tf db m)) db rs))"
  shows "x \<in> set (movies db) \<or>
         (\<exists>m \<in> set rs. rating_param tf m \<noteq> None \<and> row_title x = title m \<and> row_year x = year m)"
  using assms
proof (induction rs arbitrary: db)
  case Nil
  then show ?case by simp
next
  case (Cons r rs)
  from Cons.IH [of "fst (add_movie tf db r)"] Cons.prems
  have "x \<in> set (movies (fst (add_movie tf db r))) \<or>
        (\<exists>m \<in> set rs. rating_param tf m \<noteq> None \<and> row_title x = title m \<and> row_year x = year m)"
    by simp
  then show ?case using add_movie_rows [of x tf db r] by auto
qed

lemma foldl_add_movie_keeps_key:
  assumes "\<exists>x \<in> set (movies db). row_title x = a \<and> row_year x = b"
  shows "\<exists>x \<in> set (movies (foldl (\<lambda>db m. fst (add_movie tf db m)) db rs)). row_title x = a \<and> row_year x = b"
  using assms
proof (induction rs arbitrary: db)
  case Nil
  then show ?case by simp
next
  case (Cons r rs)
  from Cons.IH [OF add_movie_keeps_key [OF Cons.prems, of tf r]]
  show ?case by simp
qed

lemma foldl_add_movie_writes_key:
  assumes "m \<in> set rs" and "rating_param tf m \<noteq> None"
  shows "\<exists>x \<in> set (movies (foldl (\<lambda>db m. fst (add_movie tf db m)) db rs)).
           row_title x = title m \<and> row_year x = year m"
  using assms(1)
proof (induction rs arbitrary: db)
  case Nil
  then show ?case by simp
next
  case (Cons r rs)
  show ?case
  proof (cases "m = r")
    case True
    from foldl_add_movie_keeps_key [where rs = rs, OF add_movie_writes_key [OF assms(2), of db]]
    show ?thesis using True by simp
  next
    case False
    then have "m \<in> set rs" using Cons.prems by simp
    from Cons.IH [OF this, of "fst (add_movie tf db r)"]
    show ?thesis by simp
  qed
qed

text \<open>
  C9, as the code has it. Every record of a run is appended to \<open>processed_movies\<close>, and
  \<open>add_movie\<close> is called for exactly the records whose source is not \<open>Not Found\<close>, in order.
  The call writes the row when the record's rating is absent, empty, \<open>N/A\<close> or converts to a
  float, and writes nothing otherwise. Hence every row of the table after the run was there
  before or carries the title and year of a found record whose rating converts, and every
  found record whose rating converts has a row with its title and year.
\<close>

theorem only_found_records_are_stored:
  "\<exists>cm self'. classify_movies request to_float callback titles self = Inr (cm, self') \<and>
     processed_movies self' =
       map (\<lambda>(i, t). get_movie_data (request i) (strip t)) (enumerate 0 titles) \<and>
     database self' =
       foldl (\<lambda>db m. fst (add_movie to_float db m)) (database self)
         (filter (\<lambda>m. source m \<noteq> ''Not Found'') (processed_movies self')) \<and>
     (\<forall>x \<in> set (movies (database self')).
        x \<in> set (movies (database self)) \<or>
        (\<exists>m \<in> set (processed_movies self').
           source m \<noteq> ''Not Found'' \<and> rating_param to_float m \<noteq> None \<and>
           row_title x = title m \<and> row_year x = year m)) \<and>
     (\<forall>m \<in> set (processed_movies self').
        source m \<noteq> ''Not Found'' \<and> rating_param to_float m \<noteq> None \<longrightarrow>
        (\<exists>x \<in> set (movies (database self')). row_title x = title m \<and> row_year x = year m))"
proof -
  let ?recs = "lookups request 0 titles"
  let ?found = "filter (\<lambda>m. source m \<noteq> ''Not Found'') ?recs"
  let ?add = "\<lambda>db m. fst (add_movie to_float db m)"
  from classify_movies_result [of request to_float callback titles self]
  obtain cm self' where
    run: "classify_movies request to_float callback titles self = Inr (cm, self')" and
    recs: "processed_movies self' = ?recs" and
    db: "database self' = foldl ?add (database self) ?found"
    by auto
  have only: "x \<in> set (movies (database self)) \<or>
        (\<exists>m \<in> set ?recs. source m \<noteq> ''Not Found'' \<and> rating_param to_float m \<noteq> None \<and>
           row_title x = title m \<and> row_year x = year m)"
    if "x \<in> set (movies (database self'))" for x
    using that foldl_add_movie_rows [of x to_float "database self" ?found] by (auto simp: db)
  have stored: "\<exists>x \<in> set (movies (database self')). row_title x = title m \<and> row_year x = year m"
    if "m \<in> set ?recs" "source m \<noteq> ''Not Found''" "rating_param to_float m \<noteq> None" for m
    using that foldl_add_movie_writes_key [of m ?found to_float "database self"] by (simp add: db)
  show ?thesis
    using run recs db only stored
    by (intro exI [of _ cm] exI [of _ self']) (simp add: lookups_def; blast)
qed


lemma sample_sources:
  "source (found_data d t) = ''OMDb''"
  "source (minimal_data t) = ''Not Found''"
  by (simp_all add: found_data_def minimal_data_def)

theorem only_found_records_are_stored_witness:
  "\<exists>cm self'.
     classify_movies sample_provider digits_to_float False
       [''The Matrix'', ''Zzznonexistentmovie123''] fresh = Inr (cm, self') \<and>
     processed_movies self' =
       [found_data matrix_reply ''The Matrix'', minimal_data ''Zzznonexistentmovie123''] \<and>
     movies (database self') =
       [\<lparr> row_id = 1, row_title = ''The Matrix'', row_year = ''1999'',
          row_genres = ''Action, Sci-Fi'', row_rating = Finite (87 / 10),
          row_director = ''Unknown'', row_actors = ''Unknown'', row_runtime = ''Unknown'',
          row_overview = '''', row_poster_url = '''', row_imdb_id = '''' \<rparr>]"
proof -
  let ?titles = "[''The Matrix'', ''Zzznonexistentmovie123'']"
  let ?a = "found_data matrix_reply ''The Matrix''"
  let ?b = "minimal_data ''Zzznonexistentmovie123''"
  from only_found_records_are_stored [of sample_provider digits_to_float False ?titles fresh]
  obtain cm self' where
    run: "classify_movies sample_provider digits_to_float False ?titles fresh = Inr (cm, self')" and
    recs: "processed_movies self' =
             map (\<lambda>(i, t). get_movie_data (sample_provider i) (strip t)) (enumerate 0 ?titles)" and
    db: "database self' =
           foldl (\<lambda>db m. fst (add_movie digits_to_float db m)) (database fresh)
             (filter (\<lambda>m. source m \<noteq> ''Not Found'') (processed_movies self'))"
    by blast
  have recs': "processed_movies self' = [?a, ?b]"
    using recs by (simp add: strip_samples sample_lookups)
  have r: "rating_param digits_to_float ?a = Some (Finite (87 / 10))"
    by (simp add: rating_param_def found_data_def matrix_reply_def digits_to_float_def)
  have "database self' = fst (add_movie digits_to_float empty_store ?a)"
    using db by (simp add: recs' sample_sources fresh_def)
  then have "movies (database self') =
       [\<lparr> row_id = 1, row_title = ''The Matrix'', row_year = ''1999'',
          row_genres = ''Action, Sci-Fi'', row_rating = Finite (87 / 10),
          row_director = ''Unknown'', row_actors = ''Unknown'', row_runtime = ''Unknown'',
          row_overview = '''', row_poster_url = '''', row_imdb_id = '''' \<rparr>]"
    using add_movie_success [OF r, of empty_store]
    by (simp add: empty_store_def next_rowid_def found_data_def
          matrix_reply_def get_default_def truthy_def split_def en_dash_def)
  then show ?thesis
    using run recs' by blast
qed

text \<open>
  C9 as the specification states it (a record is stored if and only if its source is not
  \<open>Not Found\<close>) fails for a found record whose rating is not a number: it is in the batch
  list, its source is \<open>OMDb\<close>, and the table stays empty.
\<close>

theorem found_record_with_bad_rating_is_not_stored:
  "processed_movies (snd (projr (classify_movies garbled_provider digits_to_float False [''Solaris''] fresh))) =
     [found_data garbled_reply ''Solaris''] \<and>
   source (found_data garbled_reply ''Solaris'') = ''OMDb'' \<and>
   movies (database (snd (projr (classify_movies garbled_provider digits_to_float False [''Solaris''] fresh)))) = []"
proof -
  have s: "strip ''Solaris'' = ''Solaris''"
    by code_simp
  have g: "get_movie_data (garbled_provider 0) ''Solaris'' = found_data garbled_reply ''Solaris''"
    by (simp add: get_movie_data_def search_movie_def garbled_provider_def garbled_reply_def)
  have r: "rating_param digits_to_float (found_data garbled_reply ''Solaris'') = None"
    by (simp add: rating_param_def found_data_def garbled_reply_def digits_to_float_def)
  obtain cm where
    "classify_movies garbled_provider digits_to_float False [''Solaris''] fresh =
       Inr (cm, fresh\<lparr>database := foldl (\<lambda>db m. fst (add_movie digits_to_float db m)) (database fresh)
                                     (filter (\<lambda>m. source m \<noteq> ''Not Found'')
                                        (lookups garbled_provider 0 [''Solaris''])),
                    processed_movies := lookups garbled_provider 0 [''Solaris''],
                    effects := effects fresh @
                      concat (map (step_effects False (length [''Solaris''])) (enumerate 0 [''Solaris'']))\<rparr>)"
    using classify_movies_result [of garbled_provider digits_to_float False "[''Solaris'']" fresh] by blast
  then show ?thesis
    by (simp add: lookups_def s g r sample_sources add_movie_def fresh_def empty_store_def)
qed

text \<open>
  C10. The batch list holds, title by title, the record that \<open>get_movie_data\<close> returns for
  the stripped title. A record with \<open>k \<ge> 2\<close> genres, none of them in \<open>default_genres\<close>, is
  in the \<open>Unknown\<close> bucket \<open>k\<close> times for each of its occurrences in the batch list; a record
  whose genre list is empty or exactly \<open>['Unknown']\<close> is there once for each occurrence. (A
  record occurs several times in the batch list when several titles give the same record.)
\<close>

theorem unrecognised_genres_repeat_in_unknown:
  "\<exists>cm self' xs. classify_movies request to_float callback titles self = Inr (cm, self') \<and>
     processed_movies self' =
       map (\<lambda>(i, t). get_movie_data (request i) (strip t)) (enumerate 0 titles) \<and>
     map_of cm ''Unknown'' = Some xs \<and>
     (\<forall>m. (2 \<le> length (genres m) \<and> (\<forall>g \<in> set (genres m). g \<notin> set default_genres) \<longrightarrow>
             count_list xs m = length (genres m) * count_list (processed_movies self') m) \<and>
          (genres m = [] \<or> genres m = [''Unknown''] \<longrightarrow>
             count_list xs m = count_list (processed_movies self') m))"
proof -
  let ?recs = "lookups request 0 titles"
  let ?xs = "concat (map (\<lambda>m. replicate (filings ''Unknown'' m) m) ?recs)"
  from classify_movies_result [of request to_float callback titles self]
  obtain cm self' where
    run: "classify_movies request to_float callback titles self = Inr (cm, self')" and
    recs: "processed_movies self' = ?recs" and
    buckets: "\<forall>g. map_of cm g =
                (if g \<in> set default_genres
                 then Some (concat (map (\<lambda>m. replicate (filings g m) m) ?recs)) else None)"
    by auto
  have xs: "map_of cm ''Unknown'' = Some ?xs"
    using buckets unknown_is_default by simp
  have many: "count_list ?xs m = length (genres m) * count_list ?recs m"
    if "2 \<le> length (genres m)" "\<forall>g \<in> set (genres m). g \<notin> set default_genres" for m
  proof -
    have "genres m \<noteq> []" using that(1) by auto
    then show ?thesis
      using filings_all_unrecognised [OF that(2)] by (simp add: count_concat_replicate)
  qed
  have once: "count_list ?xs m = count_list ?recs m"
    if "genres m = [] \<or> genres m = [''Unknown'']" for m
    using filings_unknown_default [OF that] by (simp add: count_concat_replicate)
  show ?thesis
    using run recs xs many once
    by (intro exI [of _ cm] exI [of _ self'] exI [of _ ?xs]) (simp add: lookups_def)
qed

theorem unrecognised_genres_repeat_in_unknown_witness:
  "\<exists>cm self' xs.
     classify_movies sample_provider digits_to_float False
       [''Blade Runner'', ''Zzznonexistentmovie123''] fresh = Inr (cm, self') \<and>
     processed_movies self' =
       [found_data noir_reply ''Blade Runner'', minimal_data ''Zzznonexistentmovie123''] \<and>
     genres (found_data noir_reply ''Blade Runner'') = [''Sci-Fi'', ''Film-Noir''] \<and>
     map_of cm ''Unknown'' = Some xs \<and>
     count_list xs (found_data noir_reply ''Blade Runner'') = 2 \<and>
     count_list xs (minimal_data ''Zzznonexistentmovie123'') = 1"
proof -
  let ?titles = "[''Blade Runner'', ''Zzznonexistentmovie123'']"
  let ?a = "found_data noir_reply ''Blade Runner''"
  let ?b = "minimal_data ''Zzznonexistentmovie123''"
  from unrecognised_genres_repeat_in_unknown [of sample_provider digits_to_float False ?titles fresh]
  obtain cm self' xs where
    run: "classify_movies sample_provider digits_to_float False ?titles fresh = Inr (cm, self')" and
    xs: "map_of cm ''Unknown'' = Some xs" and
    counts: "\<forall>m. (2 \<le> length (genres m) \<and> (\<forall>g \<in> set (genres m). g \<notin> set default_genres) \<longrightarrow>
             count_list xs m = length (genres m) * count_list (processed_movies self') m) \<and>
          (genres m = [] \<or> genres m = [''Unknown''] \<longrightarrow>
             count_list xs m = count_list (processed_movies self') m)"
    by blast
  have recs: "processed_movies self' = [?a, ?b]"
    using run classify_movies_result [of sample_provider digits_to_float False ?titles fresh]
    by (auto simp: lookups_def strip_samples sample_lookups)
  have "source ?a \<noteq> source ?b"
    by (simp add: sample_sources)
  then have ne: "?a \<noteq> ?b"
    by auto
  have "\<forall>g \<in> set (genres ?a). g \<notin> set default_genres"
    by (simp add: sample_genres default_genres_def)
  then have "count_list xs ?a = 2"
    using counts [rule_format, of ?a] ne by (simp add: sample_genres recs)
  moreover have "count_list xs ?b = 1"
    using counts [rule_format, of ?b] ne by (simp add: sample_genres recs)
  ultimately show ?thesis
    using run recs xs sample_genres(2) by blast
qed

section \<open>Properties of the statistics\<close>

lemma rate_by_value:
  "rate tf m (rd, rc) =
     (case rating_value tf m of
        None \<Rightarrow> (rd, rc)
      | Some v \<Rightarrow>
          (case map_of rc (rating_category v) of
             None \<Rightarrow> (rd @ [v], rc)
           | Some n \<Rightarrow> (rd @ [v], AList.update (rating_category v) (n + 1) rc)))"
  by (simp add: rate_def rating_value_def split: option.splits)

text \<open>
  The loop of \<open>get_statistics\<close>: the ratings it collects are the values of the rated movies
  in order, the keys of the histogram never change, and each bucket grows by the number of
  collected ratings of its category.
\<close>

lemma stats_loop_ratings:
  assumes "\<forall>v. map_of rc (rating_category v) \<noteq> None"
  shows "\<exists>gc' rc'. stats_loop tf ms (gc, rd, rc) = (gc', rd @ List.map_filter (rating_value tf) ms, rc') \<and>
           map fst rc' = map fst rc \<and>
           (\<forall>k. map_of rc' k =
                 map_option (\<lambda>n. n + int (length (filter (\<lambda>v. rating_category v = k)
                                                    (List.map_filter (rating_value tf) ms))))
                   (map_of rc k))"
  using assms
proof (induction ms arbitrary: gc rd rc)
  case Nil
  then show ?case by (simp add: List.map_filter_simps option.map_ident)
next
  case (Cons m ms)
  show ?case
  proof (cases "rating_value tf m")
    case None
    from Cons.IH [OF Cons.prems, of "count_genres gc (genres m)" rd]
    show ?thesis using None by (simp add: rate_by_value List.map_filter_simps)
  next
    case (Some v)
    obtain n where n: "map_of rc (rating_category v) = Some n"
      using Cons.prems by auto
    let ?rc1 = "AList.update (rating_category v) (n + 1) rc"
    have m1: "map_of ?rc1 = (map_of rc)(rating_category v \<mapsto> n + 1)"
      by (rule update_conv')
    have keys1: "\<forall>w. map_of ?rc1 (rating_category w) \<noteq> None"
      using Cons.prems by (simp add: m1)
    have fst1: "map fst ?rc1 = map fst rc"
      using n by (simp add: update_keys map_of_eq_None_iff [symmetric] del: map_of_eq_None_iff)
    from Cons.IH [OF keys1, of "count_genres gc (genres m)" "rd @ [v]"]
    obtain gc' rc' where
      run: "stats_loop tf ms (count_genres gc (genres m), rd @ [v], ?rc1) =
              (gc', (rd @ [v]) @ List.map_filter (rating_value tf) ms, rc')" and
      keys: "map fst rc' = map fst ?rc1" and
      vals: "\<forall>k. map_of rc' k =
                 map_option (\<lambda>n. n + int (length (filter (\<lambda>v. rating_category v = k)
                                                    (List.map_filter (rating_value tf) ms))))
                   (map_of ?rc1 k)"
      by blast
    have "stats_loop tf (m # ms) (gc, rd, rc) =
            (gc', rd @ List.map_filter (rating_value tf) (m # ms), rc')"
      using run Some n by (simp add: rate_by_value List.map_filter_simps)
    moreover have "map fst rc' = map fst rc"
      using keys fst1 by simp
    moreover have "map_of rc' k =
                 map_option (\<lambda>n. n + int (length (filter (\<lambda>v. rating_category v = k)
                                                    (List.map_filter (rating_value tf) (m # ms)))))
                   (map_of rc k)" for k
      using vals Some n by (cases "map_of rc k") (auto simp: m1 List.map_filter_simps)
    ultimately show ?thesis by blast
  qed
qed

lemma filter_map_filter:
  "length (filter P (List.map_filter f xs)) =
     length (filter (\<lambda>x. case f x of None \<Rightarrow> False | Some v \<Rightarrow> P v) xs)"
  by (induction xs) (auto simp: List.map_filter_simps split: option.splits)

lemma rating_value_iff:
  "(case rating_value tf m of None \<Rightarrow> False | Some v \<Rightarrow> P v) \<longleftrightarrow>
   (\<exists>r v. source m \<noteq> ''Not Found'' \<and> rating m = Some r \<and> r \<noteq> [] \<and> r \<noteq> ''N/A'' \<and>
          tf r = Some v \<and> P v)"
  by (auto simp: rating_value_def rated_def split: option.splits)

lemma category_iff:
  "rating_category v = ''Excellent (9-10)'' \<longleftrightarrow> fge v 9"
  "rating_category v = ''Good (7-8.9)'' \<longleftrightarrow> fge v 7 \<and> \<not> fge v 9"
  "rating_category v = ''Average (5-6.9)'' \<longleftrightarrow> fge v 5 \<and> \<not> fge v 7"
  "rating_category v = ''Poor (3-4.9)'' \<longleftrightarrow> fge v 3 \<and> \<not> fge v 5"
  "rating_category v = ''Bad (0-2.9)'' \<longleftrightarrow> \<not> fge v 3"
  by (cases v; simp add: rating_category_def)+


text \<open>
  The quotient of two counts, the first at most the second, is a finite float: rounding a
  rational between 0 and 1 gives at most 2, so \<open>found_movies / total_movies\<close> never raises
  \<open>OverflowError\<close>.
\<close>

lemma round_half_even_le: "of_int (round_half_even x) \<le> x + 1"
proof -
  have "of_int \<lfloor>x\<rfloor> \<le> x" by simp
  then have g: "of_int \<lfloor>x\<rfloor> \<le> x + 1" by linarith
  show ?thesis
    by (auto simp: round_half_even_def Let_def g)
qed

lemma floor_log2_le_0: "a \<le> 1 \<Longrightarrow> floor_log2 a \<le> 0"
  by (auto simp: floor_log2_def bit_length.simps)

lemma round64_fraction:
  assumes "0 \<le> q" and "q \<le> 1"
  shows "\<exists>x. round64 q = Finite x"
proof (cases "q = 0")
  case True
  then show ?thesis by (simp add: round64_def)
next
  case False
  then have pos: "0 < q" using assms(1) by simp
  define e where "e = max (floor_log2 \<bar>q\<bar> - 52) (- 1074)"
  define c :: rat where "c = 2 powi e"
  define m where "m = round_half_even (\<bar>q\<bar> / c)"
  have "e \<le> 0"
    using floor_log2_le_0 [of "\<bar>q\<bar>"] assms pos by (simp add: e_def)
  then have c1: "c \<le> 1"
    unfolding c_def using power_int_increasing [of e 0 "2::rat"] by simp
  have c0: "0 < c"
    unfolding c_def by (simp add: zero_less_power_int)
  have "of_int m \<le> \<bar>q\<bar> / c + 1"
    unfolding m_def by (rule round_half_even_le)
  then have "of_int m * c \<le> (\<bar>q\<bar> / c + 1) * c"
    using c0 by (simp add: mult_right_mono)
  also have "\<dots> = \<bar>q\<bar> + c"
    using c0 by (simp add: field_simps)
  also have "\<dots> \<le> 2"
    using assms c1 by simp
  finally have le2: "of_int m * c \<le> 2" .
  have "(2::rat) ^ 1 < 2 ^ 1024"
    by (rule power_strict_increasing) simp_all
  then have "(2::rat) < 2 ^ 1024"
    by (simp only: power_one_right)
  with le2 have "\<not> 2 ^ 1024 \<le> of_int m * c"
    by linarith
  then show ?thesis
    using False by (simp add: round64_def Let_def e_def [symmetric] c_def [symmetric] m_def [symmetric])
qed

lemma truediv_fraction:
  assumes "0 \<le> a" and "a \<le> b" and "0 < b"
  shows "\<exists>x. round64 (of_int a / of_int b) = Finite x \<and> truediv a b = Inr (Finite x)"
proof -
  have "(0::rat) \<le> of_int a / of_int b" and "(of_int a / of_int b :: rat) \<le> 1"
    using assms by simp_all
  from round64_fraction [OF this]
  obtain x where "round64 (of_int a / of_int b) = Finite x"
    by blast
  then show ?thesis
    using assms(3) by (simp add: truediv_def)
qed

lemma get_statistics_result:
  assumes "processed_movies self \<noteq> []"
    and "\<forall>m \<in> set (processed_movies self). \<forall>r. rated m = Some r \<longrightarrow> to_float r \<noteq> None"
  shows "\<exists>st. get_statistics to_float self = Inr (Some st) \<and>
           total_movies st = int (length (processed_movies self)) \<and>
           found_movies st = int (length (filter (\<lambda>m. source m \<noteq> ''Not Found'') (processed_movies self))) \<and>
           (\<exists>x. round64 (of_int (found_movies st) / of_int (total_movies st)) = Finite x \<and>
                success_rate st = PyFloat (round64 (x * 100))) \<and>
           rating_data st = List.map_filter (rating_value to_float) (processed_movies self) \<and>
           total_ratings st = int (length (rating_data st)) \<and>
           map fst (rating_categories st) =
             [''Excellent (9-10)'', ''Good (7-8.9)'', ''Average (5-6.9)'', ''Poor (3-4.9)'', ''Bad (0-2.9)''] \<and>
           (\<forall>v. map_of (rating_categories st) (rating_category v) =
                  Some (int (length (filter (\<lambda>w. rating_category w = rating_category v) (rating_data st)))))"
proof -
  let ?ms = "processed_movies self"
  let ?init = "[(''Excellent (9-10)'', 0::int), (''Good (7-8.9)'', 0), (''Average (5-6.9)'', 0),
                (''Poor (3-4.9)'', 0), (''Bad (0-2.9)'', 0)]"
  have init: "map_of ?init (rating_category v) = Some 0" for v
    by (simp add: rating_category_def)
  then have "\<forall>v. map_of ?init (rating_category v) \<noteq> None"
    by simp
  from stats_loop_ratings [OF this, of to_float ?ms "[]" "[]"]
  obtain gc' rc' where
    run: "stats_loop to_float ?ms ([], [], ?init) = (gc', List.map_filter (rating_value to_float) ?ms, rc')" and
    keys: "map fst rc' = map fst ?init" and
    vals: "\<forall>k. map_of rc' k =
             map_option (\<lambda>n. n + int (length (filter (\<lambda>v. rating_category v = k)
                                                (List.map_filter (rating_value to_float) ?ms))))
               (map_of ?init k)"
    by auto
  have no_error: "\<not> list_ex (\<lambda>m. case rated m of None \<Rightarrow> False | Some r \<Rightarrow> to_float r = None) ?ms"
    using assms(2) by (auto simp: list_ex_iff split: option.splits)
  let ?total = "int (length ?ms)"
  let ?found = "int (length (filter (\<lambda>m. source m \<noteq> ''Not Found'') ?ms))"
  have "0 \<le> ?found" and "?found \<le> ?total" and pos: "0 < ?total"
    using assms(1) by simp_all
  from truediv_fraction [OF this]
  obtain x where
    x: "round64 (of_int ?found / of_int ?total) = Finite x" and
    q: "truediv ?found ?total = Inr (Finite x)"
    by blast
  let ?st = "\<lparr> total_movies = ?total,
               found_movies = ?found,
               not_found_movies = ?total - ?found,
               unknown_genres = int (length (filter (\<lambda>m. genres m = [] \<or> genres m = [''Unknown'']) ?ms)),
               genre_counts = gc',
               success_rate = PyFloat (round64 (x * 100)),
               rating_data = List.map_filter (rating_value to_float) ?ms,
               rating_categories = rc',
               total_ratings = int (length (List.map_filter (rating_value to_float) ?ms)) \<rparr>"
  have "get_statistics to_float self = Inr (Some ?st)"
    using assms(1) no_error pos q by (simp add: get_statistics_def Let_def run)
  moreover have "\<exists>y. round64 (of_int ?found / of_int ?total) = Finite y \<and>
                    round64 (x * 100) = round64 (y * 100)"
    using x by simp
  moreover have "map_of rc' (rating_category v) =
      Some (int (length (filter (\<lambda>w. rating_category w = rating_category v)
                           (List.map_filter (rating_value to_float) ?ms))))" for v
    using vals [rule_format, of "rating_category v"] by (simp only: init option.map) simp
  moreover have "map fst rc' =
      [''Excellent (9-10)'', ''Good (7-8.9)'', ''Average (5-6.9)'', ''Poor (3-4.9)'', ''Bad (0-2.9)'']"
    using keys by simp
  ultimately show ?thesis
    by (intro exI [of _ ?st]) (simp del: map_of_eq_Some_iff)
qed

lemma some_category:
  "\<exists>v. rating_category v = ''Excellent (9-10)''"
  "\<exists>v. rating_category v = ''Good (7-8.9)''"
  "\<exists>v. rating_category v = ''Average (5-6.9)''"
  "\<exists>v. rating_category v = ''Poor (3-4.9)''"
  "\<exists>v. rating_category v = ''Bad (0-2.9)''"
proof -
  show "\<exists>v. rating_category v = ''Excellent (9-10)''"
    by (rule exI [of _ "Finite 9"]) (simp add: rating_category_def)
  show "\<exists>v. rating_category v = ''Good (7-8.9)''"
    by (rule exI [of _ "Finite 7"]) (simp add: rating_category_def)
  show "\<exists>v. rating_category v = ''Average (5-6.9)''"
    by (rule exI [of _ "Finite 5"]) (simp add: rating_category_def)
  show "\<exists>v. rating_category v = ''Poor (3-4.9)''"
    by (rule exI [of _ "Finite 3"]) (simp add: rating_category_def)
  show "\<exists>v. rating_category v = ''Bad (0-2.9)''"
    by (rule exI [of _ "Finite 0"]) (simp add: rating_category_def)
qed

text \<open>
  C4. For a batch with at least one record in which every rating that has to be converted
  is a number, \<open>get_statistics\<close> returns a histogram with five buckets. A record is counted
  when it was found and its rating is present, not empty, not \<open>N/A\<close> and converts to a
  float \<open>v\<close>; it is counted in \<open>Excellent (9-10)\<close> when \<open>v \<ge> 9\<close>, in \<open>Good (7-8.9)\<close> when
  \<open>7 \<le> v < 9\<close>, in \<open>Average (5-6.9)\<close> when \<open>5 \<le> v < 7\<close>, in \<open>Poor (3-4.9)\<close> when
  \<open>3 \<le> v < 5\<close> and in \<open>Bad (0-2.9)\<close> otherwise. So 9.0 is in the top bucket, 6.99 in
  \<open>Average (5-6.9)\<close>, and a rating 0.0 is counted (in the lowest bucket and in
  \<open>total_ratings\<close>): the sample batch has exactly these three ratings.
\<close>

theorem rating_histogram_buckets:
  assumes "processed_movies self \<noteq> []"
    and "\<forall>m \<in> set (processed_movies self). \<forall>r. rated m = Some r \<longrightarrow> to_float r \<noteq> None"
  shows "\<exists>st. get_statistics to_float self = Inr (Some st) \<and>
     (let count = (\<lambda>P. int (length (filter
              (\<lambda>m. \<exists>r v. source m \<noteq> ''Not Found'' \<and> rating m = Some r \<and> r \<noteq> [] \<and> r \<noteq> ''N/A'' \<and>
                      to_float r = Some v \<and> P v)
              (processed_movies self))))
      in map fst (rating_categories st) =
           [''Excellent (9-10)'', ''Good (7-8.9)'', ''Average (5-6.9)'', ''Poor (3-4.9)'', ''Bad (0-2.9)''] \<and>
         map_of (rating_categories st) ''Excellent (9-10)'' = Some (count (\<lambda>v. fge v 9)) \<and>
         map_of (rating_categories st) ''Good (7-8.9)'' = Some (count (\<lambda>v. fge v 7 \<and> \<not> fge v 9)) \<and>
         map_of (rating_categories st) ''Average (5-6.9)'' = Some (count (\<lambda>v. fge v 5 \<and> \<not> fge v 7)) \<and>
         map_of (rating_categories st) ''Poor (3-4.9)'' = Some (count (\<lambda>v. fge v 3 \<and> \<not> fge v 5)) \<and>
         map_of (rating_categories st) ''Bad (0-2.9)'' = Some (count (\<lambda>v. \<not> fge v 3)) \<and>
         total_ratings st = count (\<lambda>v. True))"
proof -
  from get_statistics_result [OF assms]
  obtain st where
    run: "get_statistics to_float self = Inr (Some st)" and
    data: "rating_data st = List.map_filter (rating_value to_float) (processed_movies self)" and
    n: "total_ratings st = int (length (rating_data st))" and
    keys: "map fst (rating_categories st) =
             [''Excellent (9-10)'', ''Good (7-8.9)'', ''Average (5-6.9)'', ''Poor (3-4.9)'', ''Bad (0-2.9)'']" and
    vals: "\<forall>v. map_of (rating_categories st) (rating_category v) =
                  Some (int (length (filter (\<lambda>w. rating_category w = rating_category v) (rating_data st))))"
    by (elim exE conjE) (rule that; assumption)
  have count: "int (length (filter P (rating_data st))) =
      int (length (filter
              (\<lambda>m. \<exists>r v. source m \<noteq> ''Not Found'' \<and> rating m = Some r \<and> r \<noteq> [] \<and> r \<noteq> ''N/A'' \<and>
                      to_float r = Some v \<and> P v)
              (processed_movies self)))" for P
    by (simp add: data filter_map_filter rating_value_iff)
  have bucket: "map_of (rating_categories st) k =
                  Some (int (length (filter (\<lambda>w. rating_category w = k) (rating_data st))))"
    if "\<exists>v. rating_category v = k" for k
    using that vals by auto
  have total: "total_ratings st = int (length (filter (\<lambda>v. True) (rating_data st)))"
    using n by simp
  let ?count = "\<lambda>P. int (length (filter
              (\<lambda>m. \<exists>r v. source m \<noteq> ''Not Found'' \<and> rating m = Some r \<and> r \<noteq> [] \<and> r \<noteq> ''N/A'' \<and>
                      to_float r = Some v \<and> P v)
              (processed_movies self)))"
  have b1: "map_of (rating_categories st) ''Excellent (9-10)'' = Some (?count (\<lambda>v. fge v 9))"
    using bucket [OF some_category(1)] count [of "\<lambda>v. fge v 9"] by (simp only: category_iff)
  have b2: "map_of (rating_categories st) ''Good (7-8.9)'' = Some (?count (\<lambda>v. fge v 7 \<and> \<not> fge v 9))"
    using bucket [OF some_category(2)] count [of "\<lambda>v. fge v 7 \<and> \<not> fge v 9"] by (simp only: category_iff)
  have b3: "map_of (rating_categories st) ''Average (5-6.9)'' = Some (?count (\<lambda>v. fge v 5 \<and> \<not> fge v 7))"
    using bucket [OF some_category(3)] count [of "\<lambda>v. fge v 5 \<and> \<not> fge v 7"] by (simp only: category_iff)
  have b4: "map_of (rating_categories st) ''Poor (3-4.9)'' = Some (?count (\<lambda>v. fge v 3 \<and> \<not> fge v 5))"
    using bucket [OF some_category(4)] count [of "\<lambda>v. fge v 3 \<and> \<not> fge v 5"] by (simp only: category_iff)
  have b5: "map_of (rating_categories st) ''Bad (0-2.9)'' = Some (?count (\<lambda>v. \<not> fge v 3))"
    using bucket [OF some_category(5)] count [of "\<lambda>v. \<not> fge v 3"] by (simp only: category_iff)
  have t: "total_ratings st = ?count (\<lambda>v. True)"
    using total count [of "\<lambda>v. True"] by (simp only:)
  show ?thesis
    unfolding Let_def
    using run keys b1 b2 b3 b4 b5 t by (intro exI [of _ st] conjI)
qed


lemma rated_samples:
  "rated (rated_sample s) = (if s \<noteq> [] \<and> s \<noteq> ''N/A'' then Some s else None)"
  "source (rated_sample s) = ''OMDb''"
  "rating (rated_sample s) = Some s"
  by (simp_all add: rated_def rated_sample_def matrix_first_def)

theorem rating_histogram_buckets_witness:
  "\<exists>st. get_statistics digits_to_float rated_batch = Inr (Some st) \<and>
     map fst (rating_categories st) =
       [''Excellent (9-10)'', ''Good (7-8.9)'', ''Average (5-6.9)'', ''Poor (3-4.9)'', ''Bad (0-2.9)''] \<and>
     map_of (rating_categories st) ''Excellent (9-10)'' = Some 1 \<and>
     map_of (rating_categories st) ''Good (7-8.9)'' = Some 0 \<and>
     map_of (rating_categories st) ''Average (5-6.9)'' = Some 1 \<and>
     map_of (rating_categories st) ''Poor (3-4.9)'' = Some 0 \<and>
     map_of (rating_categories st) ''Bad (0-2.9)'' = Some 1 \<and>
     total_ratings st = 3"
proof -
  have ne: "processed_movies rated_batch \<noteq> []"
    by (simp add: rated_batch_def)
  have ok: "\<forall>m \<in> set (processed_movies rated_batch). \<forall>r. rated m = Some r \<longrightarrow> digits_to_float r \<noteq> None"
    by (simp add: rated_batch_def rated_samples digits_to_float_def)
  have fl: "digits_to_float ''9.0'' = Some (Finite 9)"
    "digits_to_float ''6.99'' = Some (Finite (699 / 100))"
    "digits_to_float ''0.0'' = Some (Finite 0)"
    by (simp_all add: digits_to_float_def)
  show ?thesis
    using rating_histogram_buckets [OF ne ok]
    by (simp add: Let_def rated_batch_def rated_samples fl del: map_of_eq_Some_iff)
qed









end
